theory Spec2Isabelle
  imports Complex_Main "HOL-Library.Word"
begin

unbundle bit_operations_syntax

section \<open>The lambdakzero builder: data model\<close>

text \<open>
  The development follows the latest revision of the \<open>lambdakzeroBuilder\<close> task
  (the one with the processing modes Run2, Run3 and Run3associated and the seven
  selection stages) and of \<open>lambdakzeroV0DataLinkBuilder\<close>.

  Conventions of the embedding:
  \<^item> A \<open>float\<close> or \<open>double\<close> value read from a table, computed by the fitter or
    stored in a member or in a row is a value of the type \<open>fl\<close> below: not-a-number,
    an infinity, or the real number it stands for. Comparisons follow IEEE 754 (every
    comparison with NaN is false). Rounding is a parameter of the model: \<open>narrow\<close>
    is the conversion from \<open>double\<close> to \<open>float\<close>, \<open>fadd\<close> the addition of two floats.
  \<^item> The five thresholds of the builder are floats too. The defaults that other
    devices declare for them are literals of their source and are real numbers; the
    self-configuration computes with these and stores \<open>Fin\<close> of the result.
  \<^item> The \<open>long\<close> counters are unbounded integers: a counter grows by one per
    candidate, so it stays far below \<open>2^63\<close> for any table that fits in memory.
  \<^item> \<open>std::array<float, 3>\<close> is a triple.
  \<^item> \<open>LOGF(fatal, ...)\<close> ends the process: \<open>init\<close> returns \<open>Inl\<close> of the message.
    Logging at other levels has no effect on the state and is left out.
\<close>

datatype fl = NaN | MInf | Fin real | PInf

text \<open>\<open>a < b\<close> on floats; \<open>a > b\<close> is \<open>fl_lt b a\<close>.\<close>

fun fl_lt :: "fl \<Rightarrow> fl \<Rightarrow> bool" where
  "fl_lt NaN b = False"
| "fl_lt a NaN = False"
| "fl_lt PInf b = False"
| "fl_lt a MInf = False"
| "fl_lt MInf b = True"
| "fl_lt a PInf = True"
| "fl_lt (Fin x) (Fin y) = (x < y)"

text \<open>\<open>a <= b\<close> on floats.\<close>

definition fl_le :: "fl \<Rightarrow> fl \<Rightarrow> bool" where
  "fl_le a b \<longleftrightarrow> a \<noteq> NaN \<and> b \<noteq> NaN \<and> \<not> fl_lt b a"

fun fabs :: "fl \<Rightarrow> fl" where
  "fabs NaN = NaN"
| "fabs MInf = PInf"
| "fabs PInf = PInf"
| "fabs (Fin x) = Fin \<bar>x\<bar>"

type_synonym vec3 = "fl \<times> fl \<times> fl"

subsection \<open>Workflow description read by the self-configuration\<close>

text \<open>\<open>ConfigParamSpec\<close>: the name of an option and its default value.\<close>

record ConfigParamSpec =
  optName :: string
  defaultValue :: real

text \<open>\<open>DeviceSpec\<close>: the device name, the bindings of its inputs
  (\<open>input.matcher.binding\<close>) and its options.\<close>

record DeviceSpec =
  devName :: string
  inputs :: "string list"
  options :: "ConfigParamSpec list"

subsection \<open>Configurables\<close>

record Configurables =
  createV0CovMats :: int
  d_UseAutodetectMode :: bool
  mincrossedrows :: int
  dcanegtopv :: fl
  dcapostopv :: fl
  v0cospa :: fl
  dcav0dau :: fl
  v0radius :: fl
  tpcrefit :: int
  doprocessRun2 :: bool
  doprocessRun3 :: bool
  doprocessRun3associated :: bool

text \<open>The defaults written in the declarations of the configurables and of the
  process switches.\<close>

definition defaultConfigurables :: Configurables where
  "defaultConfigurables =
     \<lparr> createV0CovMats = -1, d_UseAutodetectMode = True, mincrossedrows = 70,
       dcanegtopv = Fin 0.1, dcapostopv = Fin 0.1, v0cospa = Fin 0.995, dcav0dau = Fin 1.0,
       v0radius = Fin 0.9, tpcrefit = 0,
       doprocessRun2 = True, doprocessRun3 = False, doprocessRun3associated = False \<rparr>"

subsection \<open>Self-configuration (the autodetect block of \<open>init\<close>)\<close>

text \<open>The five running extrema \<open>loosest_*\<close>. The variables \<open>detected_*\<close> of the source
  only hold the value just read and are the \<open>defaultValue\<close> of the option here.\<close>

record loosestT =
  loosest_v0cospa :: real
  loosest_dcav0dau :: real
  loosest_dcapostopv :: real
  loosest_dcanegtopv :: real
  loosest_radius :: real

definition loosest_initial :: loosestT where
  "loosest_initial =
     \<lparr> loosest_v0cospa = 100, loosest_dcav0dau = -100, loosest_dcapostopv = 100,
       loosest_dcanegtopv = 100, loosest_radius = 100 \<rparr>"

text \<open>The body of the loop over \<open>device.options\<close>: five independent tests on the
  option name, in the order of the source.\<close>

definition scan_option :: "ConfigParamSpec \<Rightarrow> loosestT \<Rightarrow> loosestT" where
  "scan_option option L0 =
     (let L1 = (if optName option = ''v0setting_cospa'' \<and> defaultValue option < loosest_v0cospa L0
                then L0\<lparr>loosest_v0cospa := defaultValue option\<rparr> else L0);
          L2 = (if optName option = ''v0setting_dcav0dau'' \<and> defaultValue option > loosest_dcav0dau L1
                then L1\<lparr>loosest_dcav0dau := defaultValue option\<rparr> else L1);
          L3 = (if optName option = ''v0setting_dcapostopv'' \<and> defaultValue option < loosest_dcapostopv L2
                then L2\<lparr>loosest_dcapostopv := defaultValue option\<rparr> else L2);
          L4 = (if optName option = ''v0setting_dcanegtopv'' \<and> defaultValue option < loosest_dcanegtopv L3
                then L3\<lparr>loosest_dcanegtopv := defaultValue option\<rparr> else L3);
          L5 = (if optName option = ''v0setting_radius'' \<and> defaultValue option < loosest_radius L4
                then L4\<lparr>loosest_radius := defaultValue option\<rparr> else L4)
      in L5)"

text \<open>The body of the loop over \<open>device.inputs\<close>. The state is the pair of the running
  extrema and of \<open>createV0CovMats.value\<close>.\<close>

definition scan_input :: "DeviceSpec \<Rightarrow> string \<Rightarrow> loosestT \<times> int \<Rightarrow> loosestT \<times> int" where
  "scan_input device binding s =
     (if devName device = ''lambdakzero-initializer'' then s
      else
        let L = (if binding = ''V0Datas'' \<and> devName device \<noteq> ''multistrange-builder''
                 then fold scan_option (options device) (fst s) else fst s);
            cov = (if binding = ''V0Covs'' then 1 else snd s)
        in (L, cov))"

definition scan_device :: "DeviceSpec \<Rightarrow> loosestT \<times> int \<Rightarrow> loosestT \<times> int" where
  "scan_device device s = fold (scan_input device) (inputs device) s"

definition autodetect :: "DeviceSpec list \<Rightarrow> Configurables \<Rightarrow> Configurables" where
  "autodetect devices c =
     (let (L, cov) = fold scan_device devices (loosest_initial, createV0CovMats c)
      in c\<lparr> createV0CovMats := cov,
            dcanegtopv := Fin (loosest_dcanegtopv L),
            dcapostopv := Fin (loosest_dcapostopv L),
            v0cospa := Fin (loosest_v0cospa L),
            dcav0dau := Fin (loosest_dcav0dau L),
            v0radius := Fin (loosest_radius L) \<rparr>)"

subsection \<open>Tracks, the vertex fitter and the code outside this task\<close>

text \<open>\<open>o2::track::TrackParCov\<close>, by the three getters the builder calls. The array
  filled by \<open>getCovXYZPxPyPzGlo\<close> is a function of the index.\<close>

record TrackParCov =
  getX :: fl
  getPxPyPzGlo :: vec3
  getCovXYZPxPyPzGlo :: "nat \<Rightarrow> fl"

text \<open>A row of the joined track table, by the columns the builder reads; \<open>parCov\<close> is
  \<open>getTrackParCov(track)\<close>, the parameters and covariance columns of the row.\<close>

record track =
  trackType :: "8 word"
  tpcNClsCrossedRows :: int
  dcaXY :: fl
  parCov :: TrackParCov

text \<open>What the getters of \<open>DCAFitterN<2>\<close> return once \<open>process\<close> has returned.\<close>

record fitState =
  getTrack0 :: TrackParCov
  getTrack1 :: TrackParCov
  getPCACandidate :: vec3
  getChi2AtPCACandidate :: fl
  calcPCACovMatrix :: "nat \<times> nat \<Rightarrow> fl"

text \<open>The outcome of one call of \<open>fitter.process\<close>: it throws, or it returns the number
  of candidates and leaves its results in the fitter.\<close>

datatype processResult = Throws | Returns int fitState

text \<open>The fitter object held by the builder. \<open>processCalls\<close> counts the invocations of
  \<open>process\<close> (instrumentation of the model: it is how a statement can say that the
  fitter was or was not invoked); \<open>current\<close> is what the getters read.\<close>

record DCAFitterN =
  processCalls :: nat
  current :: fitState

text \<open>Code that is not part of this task: the flag constant
  \<open>o2::aod::track::TPCrefit\<close>, the fit itself (with the settings and the field fixed by
  \<open>init\<close> and \<open>initCCDB\<close>, a function of the two tracks), \<open>RecoDecay::cpa\<close>,
  \<open>RecoDecay::sqrtSumOfSquares\<close> and \<open>TMath::Sqrt\<close>; and the floating-point unit: the
  conversion \<open>narrow\<close> of a value to \<open>float\<close>, which takes place wherever a result is
  assigned to a \<open>float\<close> member (and changes nothing when the value is a \<open>float\<close>
  already), and the addition \<open>fadd\<close> of two floats. They are parameters of the model.\<close>

record externals =
  TPCrefit :: "8 word"
  process :: "TrackParCov \<Rightarrow> TrackParCov \<Rightarrow> processResult"
  cpa :: "vec3 \<Rightarrow> vec3 \<Rightarrow> vec3 \<Rightarrow> fl"
  sqrtSumOfSquares :: "fl \<Rightarrow> fl \<Rightarrow> fl"
  TMath_Sqrt :: "fl \<Rightarrow> fl"
  narrow :: "fl \<Rightarrow> fl"
  fadd :: "fl \<Rightarrow> fl \<Rightarrow> fl"

text \<open>\<open>fitter.process(a, b)\<close> as seen by the builder: \<open>None\<close> is an exception. The
  results a throwing call leaves in the fitter are never read (the builder returns at
  once), so they are kept as they were.\<close>

definition fitter_process ::
  "externals \<Rightarrow> TrackParCov \<Rightarrow> TrackParCov \<Rightarrow> DCAFitterN \<Rightarrow> int option \<times> DCAFitterN" where
  "fitter_process ext a b f =
     (case process ext a b of
        Throws \<Rightarrow> (None, f\<lparr>processCalls := processCalls f + 1\<rparr>)
      | Returns nCand r \<Rightarrow> (Some nCand, \<lparr>processCalls = processCalls f + 1, current = r\<rparr>))"

subsection \<open>The state of the builder\<close>

definition kV0All :: nat where "kV0All = 0"
definition kV0TPCrefit :: nat where "kV0TPCrefit = 1"
definition kV0CrossedRows :: nat where "kV0CrossedRows = 2"
definition kV0DCAxy :: nat where "kV0DCAxy = 3"
definition kV0DCADau :: nat where "kV0DCADau = 4"
definition kV0CosPA :: nat where "kV0CosPA = 5"
definition kV0Radius :: nat where "kV0Radius = 6"
definition kNV0Steps :: nat where "kNV0Steps = 7"

lemmas v0step_defs =
  kV0All_def kV0TPCrefit_def kV0CrossedRows_def kV0DCAxy_def kV0DCADau_def kV0CosPA_def
  kV0Radius_def kNV0Steps_def

record v0candidateT =
  posTrackX :: fl
  negTrackX :: fl
  pos :: vec3
  posP :: vec3
  negP :: vec3
  dcaV0dau :: fl
  posDCAxy :: fl
  negDCAxy :: fl
  cosPA :: fl
  V0radius :: fl
  lambdaMass :: fl
  antilambdaMass :: fl

record statisticsRegistryT =
  v0stats :: "int list"
  exceptions :: int
  eventCounter :: int

text \<open>The three histograms, by their bin contents.\<close>

record registryT =
  hEventCounter :: int
  hCaughtExceptions :: int
  hV0Criteria :: "int list"

text \<open>A row of \<open>StoredV0Datas\<close> and a row of \<open>V0Covs\<close>, by the arguments of the two
  cursors.\<close>

record StoredV0Data =
  row_posTrackId :: int
  row_negTrackId :: int
  row_collisionId :: int
  row_v0Id :: int
  row_posX :: fl
  row_negX :: fl
  row_pos :: vec3
  row_posP :: vec3
  row_negP :: vec3
  row_dcaV0daughters :: fl
  row_dcapostopv :: fl
  row_dcanegtopv :: fl

record V0Cov =
  positionCovariance :: "fl list"
  momentumCovariance :: "fl list"

text \<open>A row of \<open>aod::V0s\<close> with its two daughter tracks already looked up.\<close>

record V0 =
  posTrack :: track
  negTrack :: track
  posTrackId :: int
  negTrackId :: int
  collisionId :: int
  globalIndex :: int

text \<open>The members of \<open>lambdakzeroBuilder\<close> that the functions below read or write, and
  the two output tables. (The run number, the field and the CCDB handles only feed the
  fitter and are part of \<open>process\<close> above.)\<close>

record lambdakzeroBuilder =
  conf :: Configurables
  fitter :: DCAFitterN
  v0candidate :: v0candidateT
  statisticsRegistry :: statisticsRegistryT
  registry :: registryT
  lPositiveTrack :: TrackParCov
  lNegativeTrack :: TrackParCov
  v0data :: "StoredV0Data list"
  v0covs :: "V0Cov list"

subsection \<open>\<open>resetHistos\<close>, \<open>fillHistos\<close> and \<open>init\<close>\<close>

text \<open>\<open>v0stats\<close> is a \<open>std::array\<close> of \<open>kNV0Steps\<close> counters; the loop of
  \<open>resetHistos\<close> sets every one of them to zero.\<close>

definition resetHistos :: "lambdakzeroBuilder \<Rightarrow> lambdakzeroBuilder" where
  "resetHistos b =
     b\<lparr>statisticsRegistry :=
         \<lparr>v0stats = replicate kNV0Steps 0, exceptions = 0, eventCounter = 0\<rparr>\<rparr>"

definition fillHistos :: "lambdakzeroBuilder \<Rightarrow> lambdakzeroBuilder" where
  "fillHistos b =
     (let s = statisticsRegistry b; r = registry b
      in b\<lparr>registry :=
             \<lparr>hEventCounter = hEventCounter r + eventCounter s,
              hCaughtExceptions = hCaughtExceptions r + exceptions s,
              hV0Criteria =
                fold (\<lambda>ii h. h[ii := h ! ii + v0stats s ! ii]) [0..<kNV0Steps] (hV0Criteria r)\<rparr>\<rparr>)"

text \<open>\<open>init\<close>: the counters are reset, then the four fatal checks on the process
  switches in the order of the source, then the self-configuration when
  \<open>d_UseAutodetectMode\<close> is set. The CCDB and fitter set-up calls of \<open>init\<close> do not
  touch the configurables and raise no fatal error (\<open>setFatalWhenNull(false)\<close>).\<close>

datatype fatal = Fatal string

definition init :: "DeviceSpec list \<Rightarrow> lambdakzeroBuilder \<Rightarrow> fatal + lambdakzeroBuilder" where
  "init devices b0 =
     (let b = resetHistos b0; c = conf b in
      if \<not> doprocessRun2 c \<and> \<not> doprocessRun3 c \<and> \<not> doprocessRun3associated c
      then Inl (Fatal ''Neither processRun2, processRun3 nor processRun3associated enabled. Please choose one.'')
      else if doprocessRun2 c \<and> doprocessRun3 c
      then Inl (Fatal ''Cannot enable processRun2 and processRun3 at the same time. Please choose one.'')
      else if doprocessRun2 c \<and> doprocessRun3associated c
      then Inl (Fatal ''Cannot enable processRun2 and processRun3associated at the same time. Please choose one.'')
      else if doprocessRun3 c \<and> doprocessRun3associated c
      then Inl (Fatal ''Cannot enable processRun3 and processRun3associated at the same time. Please choose one.'')
      else Inr (if d_UseAutodetectMode c then b\<lparr>conf := autodetect devices c\<rparr> else b))"

subsection \<open>\<open>buildV0Candidate\<close>\<close>

text \<open>\<open>statisticsRegistry.v0stats[i]++\<close>\<close>

definition count_step :: "nat \<Rightarrow> lambdakzeroBuilder \<Rightarrow> lambdakzeroBuilder" where
  "count_step i b =
     b\<lparr>statisticsRegistry :=
         (statisticsRegistry b)\<lparr>v0stats :=
            (v0stats (statisticsRegistry b))[i := v0stats (statisticsRegistry b) ! i + 1]\<rparr>\<rparr>"

definition comp0 :: "vec3 \<Rightarrow> fl" where "comp0 v = fst v"
definition comp1 :: "vec3 \<Rightarrow> fl" where "comp1 v = fst (snd v)"
definition comp2 :: "vec3 \<Rightarrow> fl" where "comp2 v = snd (snd v)"

text \<open>The componentwise sum of two momenta, in \<open>float\<close>; and a vertex stored into a
  \<open>float\<close> array.\<close>

definition vsum :: "externals \<Rightarrow> vec3 \<Rightarrow> vec3 \<Rightarrow> vec3" where
  "vsum ext p q =
     (fadd ext (comp0 p) (comp0 q), fadd ext (comp1 p) (comp1 q), fadd ext (comp2 p) (comp2 q))"

definition vnarrow :: "externals \<Rightarrow> vec3 \<Rightarrow> vec3" where
  "vnarrow ext v = (narrow ext (comp0 v), narrow ext (comp1 v), narrow ext (comp2 v))"

text \<open>The second half of \<open>buildV0Candidate\<close>, from the call of the fitter to the end.
  The \<open>catch (...)\<close> clause is the \<open>None\<close> branch. The three cut values are rounded to
  \<open>float\<close> when they are stored in the candidate struct, and it is the stored value that
  is compared: \<open>dcaV0dau > dcav0dau\<close>, \<open>cosPA < v0cospa\<close>, \<open>V0radius < v0radius\<close>.\<close>

definition fitAndSelect ::
  "externals \<Rightarrow> vec3 \<Rightarrow> lambdakzeroBuilder \<Rightarrow> bool \<times> lambdakzeroBuilder" where
  "fitAndSelect ext collision b6 =
     (let (r, f) = fitter_process ext (lPositiveTrack b6) (lNegativeTrack b6) (fitter b6);
          b7 = b6\<lparr>fitter := f\<rparr>
      in case r of
           None \<Rightarrow>
             (False, b7\<lparr>statisticsRegistry :=
                          (statisticsRegistry b7)\<lparr>exceptions := exceptions (statisticsRegistry b7) + 1\<rparr>\<rparr>)
         | Some nCand \<Rightarrow>
             if nCand = 0 then (False, b7)
             else
               let res = current (fitter b7);
                   b8 = b7\<lparr>v0candidate := (v0candidate b7)
                            \<lparr>posTrackX := getX (getTrack0 res), negTrackX := getX (getTrack1 res)\<rparr>\<rparr>;
                   b9 = b8\<lparr>lPositiveTrack := getTrack0 res, lNegativeTrack := getTrack1 res\<rparr>;
                   b10 = b9\<lparr>v0candidate := (v0candidate b9)
                             \<lparr>posP := getPxPyPzGlo (lPositiveTrack b9),
                              negP := getPxPyPzGlo (lNegativeTrack b9)\<rparr>\<rparr>;
                   b11 = b10\<lparr>v0candidate := (v0candidate b10)
                              \<lparr>pos := vnarrow ext (getPCACandidate res)\<rparr>\<rparr>;
                   b12 = b11\<lparr>v0candidate := (v0candidate b11)
                              \<lparr>dcaV0dau := narrow ext (TMath_Sqrt ext (getChi2AtPCACandidate res))\<rparr>\<rparr>
               in if fl_lt (dcav0dau (conf b12)) (dcaV0dau (v0candidate b12)) then (False, b12)
                  else
                    let b13 = count_step kV0DCADau b12;
                        b14 = b13\<lparr>v0candidate := (v0candidate b13)
                                   \<lparr>cosPA := narrow ext (cpa ext collision (pos (v0candidate b13))
                                       (vsum ext (posP (v0candidate b13)) (negP (v0candidate b13))))\<rparr>\<rparr>
                    in if fl_lt (cosPA (v0candidate b14)) (v0cospa (conf b14)) then (False, b14)
                       else
                         let b15 = count_step kV0CosPA b14;
                             b16 = b15\<lparr>v0candidate := (v0candidate b15)
                                        \<lparr>V0radius := narrow ext (sqrtSumOfSquares ext
                                            (comp0 (pos (v0candidate b15)))
                                            (comp1 (pos (v0candidate b15))))\<rparr>\<rparr>
                         in if fl_lt (V0radius (v0candidate b16)) (v0radius (conf b16))
                            then (False, b16)
                            else (True, count_step kV0Radius b16))"

definition buildV0Candidate ::
  "externals \<Rightarrow> vec3 \<Rightarrow> track \<Rightarrow> track \<Rightarrow> lambdakzeroBuilder \<Rightarrow> bool \<times> lambdakzeroBuilder" where
  "buildV0Candidate ext collision posTrk negTrk b0 =
     (let b1 = count_step kV0All b0 in
      if tpcrefit (conf b1) \<noteq> 0 \<and>
         (trackType posTrk AND TPCrefit ext = 0 \<or> trackType negTrk AND TPCrefit ext = 0)
      then (False, b1)
      else
        let b2 = count_step kV0TPCrefit b1 in
        if tpcNClsCrossedRows posTrk < mincrossedrows (conf b2) \<or>
           tpcNClsCrossedRows negTrk < mincrossedrows (conf b2)
        then (False, b2)
        else
          let b3 = count_step kV0CrossedRows b2 in
          if fl_lt (fabs (dcaXY posTrk)) (dcapostopv (conf b3)) \<or>
             fl_lt (fabs (dcaXY negTrk)) (dcanegtopv (conf b3))
          then (False, b3)
          else
            let b4 = b3\<lparr>v0candidate := (v0candidate b3)
                       \<lparr>posDCAxy := dcaXY posTrk, negDCAxy := dcaXY negTrk\<rparr>\<rparr>;
                b5 = count_step kV0DCAxy b4;
                b6 = b5\<lparr>lPositiveTrack := parCov posTrk, lNegativeTrack := parCov negTrk\<rparr>
            in fitAndSelect ext collision b6)"

subsection \<open>\<open>buildStrangenessTables\<close>\<close>

definition MomInd :: "nat list" where
  "MomInd = [9, 13, 14, 18, 19, 20]"

text \<open>The row written by the \<open>v0data\<close> cursor, from the V0 and the candidate struct.\<close>

definition v0data_row :: "V0 \<Rightarrow> v0candidateT \<Rightarrow> StoredV0Data" where
  "v0data_row v c =
     \<lparr> row_posTrackId = posTrackId v, row_negTrackId = negTrackId v,
       row_collisionId = collisionId v, row_v0Id = globalIndex v,
       row_posX = posTrackX c, row_negX = negTrackX c,
       row_pos = (comp0 (pos c), comp1 (pos c), comp2 (pos c)),
       row_posP = (comp0 (posP c), comp1 (posP c), comp2 (posP c)),
       row_negP = (comp0 (negP c), comp1 (negP c), comp2 (negP c)),
       row_dcaV0daughters = dcaV0dau c,
       row_dcapostopv = posDCAxy c, row_dcanegtopv = negDCAxy c \<rparr>"

text \<open>The row written by the \<open>v0covs\<close> cursor, from the fitter and the two member
  tracks.\<close>

definition v0covs_row :: "externals \<Rightarrow> lambdakzeroBuilder \<Rightarrow> V0Cov" where
  "v0covs_row ext b =
     (let covVtxV = calcPCACovMatrix (current (fitter b));
          covTpositive = getCovXYZPxPyPzGlo (lPositiveTrack b);
          covTnegative = getCovXYZPxPyPzGlo (lNegativeTrack b)
      in \<lparr> positionCovariance =
             map (narrow ext)
               [covVtxV (0, 0), covVtxV (1, 0), covVtxV (1, 1),
                covVtxV (2, 0), covVtxV (2, 1), covVtxV (2, 2)],
           momentumCovariance = map (\<lambda>i. fadd ext (covTpositive i) (covTnegative i)) MomInd \<rparr>)"

text \<open>The body of the loop over the V0s.\<close>

definition v0loop_body :: "externals \<Rightarrow> vec3 \<Rightarrow> V0 \<Rightarrow> lambdakzeroBuilder \<Rightarrow> lambdakzeroBuilder" where
  "v0loop_body ext collision v b =
     (let (validCandidate, b1) = buildV0Candidate ext collision (posTrack v) (negTrack v) b in
      if \<not> validCandidate then b1
      else
        let b2 = b1\<lparr>v0data := v0data b1 @ [v0data_row v (v0candidate b1)]\<rparr> in
        if createV0CovMats (conf b2) \<noteq> 0
        then b2\<lparr>v0covs := v0covs b2 @ [v0covs_row ext b2]\<rparr>
        else b2)"

definition count_event :: "lambdakzeroBuilder \<Rightarrow> lambdakzeroBuilder" where
  "count_event b =
     b\<lparr>statisticsRegistry :=
         (statisticsRegistry b)\<lparr>eventCounter := eventCounter (statisticsRegistry b) + 1\<rparr>\<rparr>"

definition buildStrangenessTables ::
  "externals \<Rightarrow> vec3 \<Rightarrow> V0 list \<Rightarrow> lambdakzeroBuilder \<Rightarrow> lambdakzeroBuilder" where
  "buildStrangenessTables ext collision V0s b =
     resetHistos (fillHistos (fold (v0loop_body ext collision) V0s (count_event b)))"

section \<open>The V0 to V0Data link builder\<close>

text \<open>A \<open>std::vector\<close>: its elements (\<open>size()\<close> is their number) and its capacity.
  \<open>reserve\<close> changes the capacity only. \<open>operator[]\<close> is defined for an index below
  \<open>size()\<close>; any other access is undefined behaviour and is the error value here.\<close>

record 'a vector =
  elems :: "'a list"
  capacity :: nat

datatype undefined_behaviour = IndexBeyondSize int nat

definition vector_new :: "'a vector" where
  "vector_new = \<lparr> elems = [], capacity = 0 \<rparr>"

definition reserve :: "nat \<Rightarrow> 'a vector \<Rightarrow> 'a vector" where
  "reserve n v = (if capacity v < n then v\<lparr>capacity := n\<rparr> else v)"

definition vector_set :: "'a vector \<Rightarrow> int \<Rightarrow> 'a \<Rightarrow> undefined_behaviour + 'a vector" where
  "vector_set v i x =
     (if 0 \<le> i \<and> nat i < length (elems v) then Inr (v\<lparr>elems := (elems v)[nat i := x]\<rparr>)
      else Inl (IndexBeyondSize i (length (elems v))))"

definition vector_get :: "'a vector \<Rightarrow> int \<Rightarrow> undefined_behaviour + 'a" where
  "vector_get v i =
     (if 0 \<le> i \<and> nat i < length (elems v) then Inr (elems v ! nat i)
      else Inl (IndexBeyondSize i (length (elems v))))"

text \<open>A loop whose body may fail: the first failure ends it.\<close>

fun foldE :: "('a \<Rightarrow> 's \<Rightarrow> 'e + 's) \<Rightarrow> 'a list \<Rightarrow> 's \<Rightarrow> 'e + 's" where
  "foldE f [] s = Inr s"
| "foldE f (x # xs) s = (case f x s of Inl e \<Rightarrow> Inl e | Inr s' \<Rightarrow> foldE f xs s')"

text \<open>A row of \<open>aod::V0Datas\<close>, by the two columns the link builder reads.\<close>

record V0DataRow =
  v0Id :: int
  dataGlobalIndex :: int

text \<open>\<open>lambdakzeroV0DataLinkBuilder::process\<close>. Of the V0 table only the size is read.
  The result is the list of the values given to the \<open>v0dataLink\<close> cursor.\<close>

definition linkBuilder_process :: "nat \<Rightarrow> V0DataRow list \<Rightarrow> undefined_behaviour + int list" where
  "linkBuilder_process v0table_size v0datatable =
     (let lIndices = reserve v0table_size vector_new in
      case foldE (\<lambda>ii v. vector_set v (int ii) (-1)) [0..<v0table_size] lIndices of
        Inl e \<Rightarrow> Inl e
      | Inr lIndices1 \<Rightarrow>
          (case foldE (\<lambda>v0data v. vector_set v (v0Id v0data) (dataGlobalIndex v0data))
                  v0datatable lIndices1 of
             Inl e \<Rightarrow> Inl e
           | Inr lIndices2 \<Rightarrow>
               foldE (\<lambda>ii out. case vector_get lIndices2 (int ii) of
                                  Inl e \<Rightarrow> Inl e
                                | Inr x \<Rightarrow> Inr (out @ [x]))
                 [0..<v0table_size] []))"

section \<open>Vocabulary of the properties\<close>

subsection \<open>Self-configuration\<close>

text \<open>The devices the builder listens to: every device with an input bound to
  \<open>V0Datas\<close>, apart from the two names the scan skips.\<close>

definition listens :: "DeviceSpec \<Rightarrow> bool" where
  "listens d \<longleftrightarrow>
     devName d \<noteq> ''lambdakzero-initializer'' \<and> devName d \<noteq> ''multistrange-builder'' \<and>
     ''V0Datas'' \<in> set (inputs d)"

text \<open>The defaults declared for an option name, in one option list and over all the
  devices listened to.\<close>

definition declared_in :: "string \<Rightarrow> ConfigParamSpec list \<Rightarrow> real list" where
  "declared_in key opts = map defaultValue (filter (\<lambda>option. optName option = key) opts)"

definition declared :: "string \<Rightarrow> DeviceSpec list \<Rightarrow> real list" where
  "declared key devices =
     concat (map (\<lambda>d. declared_in key (options d)) (filter listens devices))"

definition enabledModes :: "Configurables \<Rightarrow> nat" where
  "enabledModes c =
     length (filter id [doprocessRun2 c, doprocessRun3 c, doprocessRun3associated c])"

text \<open>One step of a running minimum, resp. maximum, over the options named \<open>key\<close>;
  and the test of the scan on a device and a list of input bindings.\<close>

definition upd_min :: "string \<Rightarrow> ConfigParamSpec \<Rightarrow> real \<Rightarrow> real" where
  "upd_min key option r = (if optName option = key then min (defaultValue option) r else r)"

definition upd_max :: "string \<Rightarrow> ConfigParamSpec \<Rightarrow> real \<Rightarrow> real" where
  "upd_max key option r = (if optName option = key then max (defaultValue option) r else r)"

definition heard :: "DeviceSpec \<Rightarrow> string list \<Rightarrow> bool" where
  "heard d bs \<longleftrightarrow>
     devName d \<noteq> ''lambdakzero-initializer'' \<and> devName d \<noteq> ''multistrange-builder'' \<and>
     ''V0Datas'' \<in> set bs"

subsection \<open>Selection stages\<close>

text \<open>The first \<open>k\<close> counters of a counter vector incremented by one.\<close>

definition bump_prefix :: "nat \<Rightarrow> int list \<Rightarrow> int list" where
  "bump_prefix k v = map (\<lambda>(i, x). if i < k then x + 1 else x) (enumerate 0 v)"

text \<open>The counters do not increase along the stages.\<close>

definition nonincreasing :: "int list \<Rightarrow> bool" where
  "nonincreasing v \<longleftrightarrow>
     v ! kV0All \<ge> v ! kV0TPCrefit \<and> v ! kV0TPCrefit \<ge> v ! kV0CrossedRows \<and>
     v ! kV0CrossedRows \<ge> v ! kV0DCAxy \<and> v ! kV0DCAxy \<ge> v ! kV0DCADau \<and>
     v ! kV0DCADau \<ge> v ! kV0CosPA \<and> v ! kV0CosPA \<ge> v ! kV0Radius"

text \<open>The three tests that come before the fit: TPC refit when demanded, crossed rows,
  and the DCA of each daughter to the primary vertex. The last one is passed when
  neither \<open>|DCAxy|\<close> compares below its minimum, which a NaN does not.\<close>

definition passesTPCrefit :: "Configurables \<Rightarrow> externals \<Rightarrow> track \<Rightarrow> track \<Rightarrow> bool" where
  "passesTPCrefit c ext posTrk negTrk \<longleftrightarrow>
     tpcrefit c = 0 \<or>
     (trackType posTrk AND TPCrefit ext \<noteq> 0 \<and> trackType negTrk AND TPCrefit ext \<noteq> 0)"

definition passesCrossedRows :: "Configurables \<Rightarrow> track \<Rightarrow> track \<Rightarrow> bool" where
  "passesCrossedRows c posTrk negTrk \<longleftrightarrow>
     mincrossedrows c \<le> tpcNClsCrossedRows posTrk \<and> mincrossedrows c \<le> tpcNClsCrossedRows negTrk"

definition passesDCAxy :: "Configurables \<Rightarrow> track \<Rightarrow> track \<Rightarrow> bool" where
  "passesDCAxy c posTrk negTrk \<longleftrightarrow>
     \<not> fl_lt (fabs (dcaXY posTrk)) (dcapostopv c) \<and>
     \<not> fl_lt (fabs (dcaXY negTrk)) (dcanegtopv c)"

definition reachesFit :: "Configurables \<Rightarrow> externals \<Rightarrow> track \<Rightarrow> track \<Rightarrow> bool" where
  "reachesFit c ext posTrk negTrk \<longleftrightarrow>
     passesTPCrefit c ext posTrk negTrk \<and> passesCrossedRows c posTrk negTrk \<and>
     passesDCAxy c posTrk negTrk"

text \<open>A float is at least, resp. at most, a threshold; neither holds when one of the
  two is NaN, in which case the two are unordered.\<close>

definition atLeast_fl :: "fl \<Rightarrow> fl \<Rightarrow> bool" where
  "atLeast_fl x t \<longleftrightarrow> fl_le t x"

definition atMost_fl :: "fl \<Rightarrow> fl \<Rightarrow> bool" where
  "atMost_fl x t \<longleftrightarrow> fl_le x t"

definition unordered :: "fl \<Rightarrow> fl \<Rightarrow> bool" where
  "unordered x t \<longleftrightarrow> x = NaN \<or> t = NaN"

text \<open>The topological cuts, read off a row of the output table; the pointing angle is
  taken with respect to the primary vertex of the collision. \<open>satisfiesCuts\<close> says that
  the five quantities of the row are within the cuts. \<open>passedCuts\<close> says what the
  comparisons of the builder establish: each quantity, with the pointing angle and the
  radius rounded to \<open>float\<close> as the builder stores them, is within its cut or unordered
  with its threshold.\<close>

definition satisfiesCuts :: "Configurables \<Rightarrow> externals \<Rightarrow> vec3 \<Rightarrow> StoredV0Data \<Rightarrow> bool" where
  "satisfiesCuts c ext collision row \<longleftrightarrow>
     atMost_fl (row_dcaV0daughters row) (dcav0dau c) \<and>
     atLeast_fl (cpa ext collision (row_pos row) (vsum ext (row_posP row) (row_negP row)))
       (v0cospa c) \<and>
     atLeast_fl (sqrtSumOfSquares ext (comp0 (row_pos row)) (comp1 (row_pos row))) (v0radius c) \<and>
     atLeast_fl (fabs (row_dcapostopv row)) (dcapostopv c) \<and>
     atLeast_fl (fabs (row_dcanegtopv row)) (dcanegtopv c)"

definition row_cosPA :: "externals \<Rightarrow> vec3 \<Rightarrow> StoredV0Data \<Rightarrow> fl" where
  "row_cosPA ext collision row =
     narrow ext (cpa ext collision (row_pos row) (vsum ext (row_posP row) (row_negP row)))"

definition row_V0radius :: "externals \<Rightarrow> StoredV0Data \<Rightarrow> fl" where
  "row_V0radius ext row =
     narrow ext (sqrtSumOfSquares ext (comp0 (row_pos row)) (comp1 (row_pos row)))"

definition passedCuts :: "Configurables \<Rightarrow> externals \<Rightarrow> vec3 \<Rightarrow> StoredV0Data \<Rightarrow> bool" where
  "passedCuts c ext collision row \<longleftrightarrow>
     (unordered (row_dcaV0daughters row) (dcav0dau c) \<or>
        atMost_fl (row_dcaV0daughters row) (dcav0dau c)) \<and>
     (unordered (row_cosPA ext collision row) (v0cospa c) \<or>
        atLeast_fl (row_cosPA ext collision row) (v0cospa c)) \<and>
     (unordered (row_V0radius ext row) (v0radius c) \<or>
        atLeast_fl (row_V0radius ext row) (v0radius c)) \<and>
     (unordered (fabs (row_dcapostopv row)) (dcapostopv c) \<or>
        atLeast_fl (fabs (row_dcapostopv row)) (dcapostopv c)) \<and>
     (unordered (fabs (row_dcanegtopv row)) (dcanegtopv c) \<or>
        atLeast_fl (fabs (row_dcanegtopv row)) (dcanegtopv c))"

subsection \<open>The candidate builder as a function of its inputs\<close>

text \<open>The state in which \<open>buildV0Candidate\<close> calls the fitter, when the three tests
  before the fit are passed.\<close>

definition prefit_state :: "track \<Rightarrow> track \<Rightarrow> lambdakzeroBuilder \<Rightarrow> lambdakzeroBuilder" where
  "prefit_state p n b =
     (count_step kV0DCAxy
        ((count_step kV0CrossedRows (count_step kV0TPCrefit (count_step kV0All b)))
           \<lparr>v0candidate := (v0candidate b)\<lparr>posDCAxy := dcaXY p, negDCAxy := dcaXY n\<rparr>\<rparr>))
       \<lparr>lPositiveTrack := parCov p, lNegativeTrack := parCov n\<rparr>"

text \<open>The counter vector has its \<open>kNV0Steps\<close> entries and does not increase along the
  stages.\<close>

definition counters_ok :: "lambdakzeroBuilder \<Rightarrow> bool" where
  "counters_ok b \<longleftrightarrow>
     length (v0stats (statisticsRegistry b)) = kNV0Steps \<and>
     nonincreasing (v0stats (statisticsRegistry b))"

text \<open>How many of the three topological cuts a fit result passes, in the order in
  which they are applied; and how many stages a candidate reaches, counting the stage
  \<open>kV0All\<close> that every candidate reaches.\<close>

definition cutsPassed :: "Configurables \<Rightarrow> externals \<Rightarrow> vec3 \<Rightarrow> fitState \<Rightarrow> nat" where
  "cutsPassed c ext collision r =
     (if fl_lt (dcav0dau c) (narrow ext (TMath_Sqrt ext (getChi2AtPCACandidate r))) then 0
      else if fl_lt (narrow ext (cpa ext collision (vnarrow ext (getPCACandidate r))
                (vsum ext (getPxPyPzGlo (getTrack0 r)) (getPxPyPzGlo (getTrack1 r)))))
                (v0cospa c) then 1
      else if fl_lt (narrow ext (sqrtSumOfSquares ext (comp0 (vnarrow ext (getPCACandidate r)))
                (comp1 (vnarrow ext (getPCACandidate r))))) (v0radius c)
      then 2
      else 3)"

definition stagesReached :: "Configurables \<Rightarrow> externals \<Rightarrow> vec3 \<Rightarrow> track \<Rightarrow> track \<Rightarrow> nat" where
  "stagesReached c ext collision p n =
     (if \<not> passesTPCrefit c ext p n then 1
      else if \<not> passesCrossedRows c p n then 2
      else if \<not> passesDCAxy c p n then 3
      else case process ext (parCov p) (parCov n) of
             Throws \<Rightarrow> 4
           | Returns nCand r \<Rightarrow> if nCand = 0 then 4 else 4 + cutsPassed c ext collision r)"

text \<open>The two rows that belong to a V0 and a fit result, and the fit result of a V0
  that passes every selection.\<close>

definition fit_row :: "externals \<Rightarrow> V0 \<Rightarrow> fitState \<Rightarrow> StoredV0Data" where
  "fit_row ext v r =
     \<lparr> row_posTrackId = posTrackId v, row_negTrackId = negTrackId v,
       row_collisionId = collisionId v, row_v0Id = globalIndex v,
       row_posX = getX (getTrack0 r), row_negX = getX (getTrack1 r),
       row_pos = vnarrow ext (getPCACandidate r),
       row_posP = getPxPyPzGlo (getTrack0 r),
       row_negP = getPxPyPzGlo (getTrack1 r),
       row_dcaV0daughters = narrow ext (TMath_Sqrt ext (getChi2AtPCACandidate r)),
       row_dcapostopv = dcaXY (posTrack v), row_dcanegtopv = dcaXY (negTrack v) \<rparr>"

definition fit_cov :: "externals \<Rightarrow> fitState \<Rightarrow> V0Cov" where
  "fit_cov ext r =
     \<lparr> positionCovariance =
         map (narrow ext)
           [calcPCACovMatrix r (0, 0), calcPCACovMatrix r (1, 0), calcPCACovMatrix r (1, 1),
            calcPCACovMatrix r (2, 0), calcPCACovMatrix r (2, 1), calcPCACovMatrix r (2, 2)],
       momentumCovariance =
         map (\<lambda>i. fadd ext (getCovXYZPxPyPzGlo (getTrack0 r) i) (getCovXYZPxPyPzGlo (getTrack1 r) i))
           MomInd \<rparr>"

definition accepted :: "Configurables \<Rightarrow> externals \<Rightarrow> vec3 \<Rightarrow> V0 \<Rightarrow> fitState option" where
  "accepted c ext collision v =
     (if reachesFit c ext (posTrack v) (negTrack v)
      then case process ext (parCov (posTrack v)) (parCov (negTrack v)) of
             Throws \<Rightarrow> None
           | Returns nCand r \<Rightarrow>
               if nCand \<noteq> 0 \<and> cutsPassed c ext collision r = 3 then Some r else None
      else None)"

text \<open>The rows that a list of V0s adds to the two tables, as a function of the
  configuration and of the inputs alone.\<close>

definition expected_v0data :: "Configurables \<Rightarrow> externals \<Rightarrow> vec3 \<Rightarrow> V0 list \<Rightarrow> StoredV0Data list" where
  "expected_v0data c ext collision V0s =
     concat (map (\<lambda>v. case accepted c ext collision v of None \<Rightarrow> [] | Some r \<Rightarrow> [fit_row ext v r]) V0s)"

definition expected_v0covs :: "Configurables \<Rightarrow> externals \<Rightarrow> vec3 \<Rightarrow> V0 list \<Rightarrow> V0Cov list" where
  "expected_v0covs c ext collision V0s =
     (if createV0CovMats c \<noteq> 0
      then concat (map (\<lambda>v. case accepted c ext collision v of None \<Rightarrow> [] | Some r \<Rightarrow> [fit_cov ext r]) V0s)
      else [])"

text \<open>The counter vector that a call of \<open>buildStrangenessTables\<close> hands to \<open>fillHistos\<close>:
  the counters at the end of the loop over the V0s.\<close>

definition flushed_v0stats :: "externals \<Rightarrow> vec3 \<Rightarrow> V0 list \<Rightarrow> lambdakzeroBuilder \<Rightarrow> int list" where
  "flushed_v0stats ext collision V0s b =
     v0stats (statisticsRegistry (fold (v0loop_body ext collision) V0s (count_event b)))"

text \<open>The rows a call appends to the two output tables.\<close>

definition new_v0data ::
  "externals \<Rightarrow> vec3 \<Rightarrow> V0 list \<Rightarrow> lambdakzeroBuilder \<Rightarrow> StoredV0Data list" where
  "new_v0data ext collision V0s b =
     drop (length (v0data b)) (v0data (buildStrangenessTables ext collision V0s b))"

definition new_v0covs ::
  "externals \<Rightarrow> vec3 \<Rightarrow> V0 list \<Rightarrow> lambdakzeroBuilder \<Rightarrow> V0Cov list" where
  "new_v0covs ext collision V0s b =
     drop (length (v0covs b)) (v0covs (buildStrangenessTables ext collision V0s b))"

section \<open>A worked scenario\<close>

text \<open>A builder before \<open>init\<close>, with the default configurables and empty tables.\<close>

definition origin :: vec3 where
  "origin = (Fin 0, Fin 0, Fin 0)"

definition zeroTrack :: TrackParCov where
  "zeroTrack = \<lparr> getX = Fin 0, getPxPyPzGlo = origin, getCovXYZPxPyPzGlo = (\<lambda>i. Fin 0) \<rparr>"

definition zeroFit :: fitState where
  "zeroFit = \<lparr> getTrack0 = zeroTrack, getTrack1 = zeroTrack, getPCACandidate = origin,
               getChi2AtPCACandidate = Fin 0, calcPCACovMatrix = (\<lambda>ij. Fin 0) \<rparr>"

definition initialBuilder :: lambdakzeroBuilder where
  "initialBuilder =
     \<lparr> conf = defaultConfigurables,
       fitter = \<lparr> processCalls = 0, current = zeroFit \<rparr>,
       v0candidate = \<lparr> posTrackX = Fin 0, negTrackX = Fin 0, pos = origin, posP = origin,
                       negP = origin, dcaV0dau = Fin 0, posDCAxy = Fin 0, negDCAxy = Fin 0,
                       cosPA = Fin 0, V0radius = Fin 0, lambdaMass = Fin 0,
                       antilambdaMass = Fin 0 \<rparr>,
       statisticsRegistry = \<lparr> v0stats = replicate kNV0Steps 0, exceptions = 0, eventCounter = 0 \<rparr>,
       registry = \<lparr> hEventCounter = 0, hCaughtExceptions = 0, hV0Criteria = replicate 10 0 \<rparr>,
       lPositiveTrack = zeroTrack, lNegativeTrack = zeroTrack,
       v0data = [], v0covs = [] \<rparr>"

text \<open>Workflows: two analysis tasks that read \<open>V0Datas\<close> and declare all five settings
  (the second with the defaults of \<open>straRecoStudy\<close>), next to the initializer; a task
  that asks for a minimum radius beyond 100; and a task that reads \<open>V0Datas\<close> without
  declaring any setting.\<close>

definition consumerA :: DeviceSpec where
  "consumerA =
     \<lparr> devName = ''consumer-a'', inputs = [''Collisions'', ''V0Datas''],
       options =
         [\<lparr>optName = ''v0setting_cospa'', defaultValue = 0.99\<rparr>,
          \<lparr>optName = ''v0setting_dcav0dau'', defaultValue = 0.5\<rparr>,
          \<lparr>optName = ''v0setting_dcapostopv'', defaultValue = 0.05\<rparr>,
          \<lparr>optName = ''v0setting_dcanegtopv'', defaultValue = 0.2\<rparr>,
          \<lparr>optName = ''v0setting_radius'', defaultValue = 0.5\<rparr>] \<rparr>"

definition consumerB :: DeviceSpec where
  "consumerB =
     \<lparr> devName = ''stra-reco-study'', inputs = [''V0Datas'', ''V0Covs''],
       options =
         [\<lparr>optName = ''v0setting_cospa'', defaultValue = 0.95\<rparr>,
          \<lparr>optName = ''v0setting_dcav0dau'', defaultValue = 1.0\<rparr>,
          \<lparr>optName = ''v0setting_dcapostopv'', defaultValue = 0.1\<rparr>,
          \<lparr>optName = ''v0setting_dcanegtopv'', defaultValue = 0.1\<rparr>,
          \<lparr>optName = ''v0setting_radius'', defaultValue = 0.9\<rparr>] \<rparr>"

definition initializerDevice :: DeviceSpec where
  "initializerDevice =
     \<lparr> devName = ''lambdakzero-initializer'', inputs = [''V0Datas''],
       options = [\<lparr>optName = ''v0setting_radius'', defaultValue = 0.01\<rparr>] \<rparr>"

definition exampleWorkflow :: "DeviceSpec list" where
  "exampleWorkflow = [consumerA, initializerDevice, consumerB]"

definition farWorkflow :: "DeviceSpec list" where
  "farWorkflow =
     [\<lparr> devName = ''outer-decays'', inputs = [''V0Datas''],
        options = [\<lparr>optName = ''v0setting_radius'', defaultValue = 150\<rparr>] \<rparr>]"

definition quietWorkflow :: "DeviceSpec list" where
  "quietWorkflow =
     [\<lparr> devName = ''plain-reader'', inputs = [''V0Datas''],
        options = [\<lparr>optName = ''ptmin'', defaultValue = 0.2\<rparr>] \<rparr>]"

text \<open>Floating-point arithmetic without rounding: every value of the scenario is
  representable, so the conversion to \<open>float\<close> is the identity.\<close>

fun exact_add :: "fl \<Rightarrow> fl \<Rightarrow> fl" where
  "exact_add NaN b = NaN"
| "exact_add a NaN = NaN"
| "exact_add PInf MInf = NaN"
| "exact_add MInf PInf = NaN"
| "exact_add PInf b = PInf"
| "exact_add a PInf = PInf"
| "exact_add MInf b = MInf"
| "exact_add a MInf = MInf"
| "exact_add (Fin x) (Fin y) = Fin (x + y)"

definition exact_sqrt :: "fl \<Rightarrow> fl" where
  "exact_sqrt a =
     (case a of NaN \<Rightarrow> NaN | MInf \<Rightarrow> NaN | PInf \<Rightarrow> PInf
      | Fin x \<Rightarrow> if x < 0 then NaN else Fin (sqrt x))"

definition isFin :: "fl \<Rightarrow> bool" where
  "isFin a = (case a of Fin x \<Rightarrow> True | _ \<Rightarrow> False)"

definition val :: "fl \<Rightarrow> real" where
  "val a = (case a of Fin x \<Rightarrow> x | _ \<Rightarrow> 0)"

definition isFin3 :: "vec3 \<Rightarrow> bool" where
  "isFin3 v \<longleftrightarrow> isFin (comp0 v) \<and> isFin (comp1 v) \<and> isFin (comp2 v)"

text \<open>Candidates. The stand-in for the fit throws when the positive track sits at
  negative \<open>x\<close>, finds nothing when the negative one does, and otherwise finds one
  vertex at \<open>(0, 2, 0)\<close> with \<open>\<chi>\<^sup>2 = 0\<close>. The pointing angle and the radius are the
  usual formulas on finite values (and NaN otherwise, which is all the scenario needs).\<close>

definition exampleFit :: "TrackParCov \<Rightarrow> TrackParCov \<Rightarrow> fitState" where
  "exampleFit a b =
     \<lparr> getTrack0 = a\<lparr>getX := Fin 2\<rparr>, getTrack1 = b\<lparr>getX := Fin 2\<rparr>,
       getPCACandidate = (Fin 0, Fin 2, Fin 0), getChi2AtPCACandidate = Fin 0,
       calcPCACovMatrix = (\<lambda>ij. Fin 1) \<rparr>"

definition exampleProcess :: "TrackParCov \<Rightarrow> TrackParCov \<Rightarrow> processResult" where
  "exampleProcess a b =
     (if fl_lt (getX a) (Fin 0) then Throws
      else if fl_lt (getX b) (Fin 0) then Returns 0 (exampleFit a b)
      else Returns 1 (exampleFit a b))"

definition vdot :: "vec3 \<Rightarrow> vec3 \<Rightarrow> real" where
  "vdot p q = val (comp0 p) * val (comp0 q) + val (comp1 p) * val (comp1 q) +
     val (comp2 p) * val (comp2 q)"

definition exampleCpa :: "vec3 \<Rightarrow> vec3 \<Rightarrow> vec3 \<Rightarrow> fl" where
  "exampleCpa pv sv p =
     (let line = (Fin (val (comp0 sv) - val (comp0 pv)), Fin (val (comp1 sv) - val (comp1 pv)),
                  Fin (val (comp2 sv) - val (comp2 pv)));
          d = sqrt (vdot line line) * sqrt (vdot p p)
      in if isFin3 pv \<and> isFin3 sv \<and> isFin3 p \<and> d \<noteq> 0 then Fin (vdot line p / d) else NaN)"

definition exampleSqrtSumOfSquares :: "fl \<Rightarrow> fl \<Rightarrow> fl" where
  "exampleSqrtSumOfSquares x y =
     (if isFin x \<and> isFin y then Fin (sqrt (val x * val x + val y * val y)) else NaN)"

definition exampleExternals :: externals where
  "exampleExternals =
     \<lparr> TPCrefit = 2, process = exampleProcess, cpa = exampleCpa,
       sqrtSumOfSquares = exampleSqrtSumOfSquares, TMath_Sqrt = exact_sqrt,
       narrow = (\<lambda>x. x), fadd = exact_add \<rparr>"

definition goodTrack :: track where
  "goodTrack =
     \<lparr> trackType = 3, tpcNClsCrossedRows = 100, dcaXY = Fin 0.5,
       parCov = \<lparr> getX = Fin 1, getPxPyPzGlo = (Fin 0, Fin 1, Fin 0),
                  getCovXYZPxPyPzGlo = (\<lambda>i. Fin 1) \<rparr> \<rparr>"

definition goodV0 :: V0 where
  "goodV0 = \<lparr> posTrack = goodTrack, negTrack = goodTrack\<lparr>dcaXY := Fin (- 0.3)\<rparr>,
              posTrackId = 11, negTrackId = 12, collisionId = 0, globalIndex = 0 \<rparr>"

text \<open>A V0 whose fit throws, one whose fit finds no vertex, one whose positive daughter
  comes from the primary vertex, and one whose positive daughter has no DCA (NaN).\<close>

definition throwingV0 :: V0 where
  "throwingV0 = goodV0\<lparr> posTrack := goodTrack\<lparr>parCov := (parCov goodTrack)\<lparr>getX := Fin (- 1)\<rparr>\<rparr>,
                        globalIndex := 1 \<rparr>"

definition emptyV0 :: V0 where
  "emptyV0 = goodV0\<lparr> negTrack := goodTrack\<lparr>parCov := (parCov goodTrack)\<lparr>getX := Fin (- 1)\<rparr>\<rparr>,
                     globalIndex := 2 \<rparr>"

definition primaryV0 :: V0 where
  "primaryV0 = goodV0\<lparr> posTrack := goodTrack\<lparr>dcaXY := Fin 0.01\<rparr>, globalIndex := 3 \<rparr>"

definition nanV0 :: V0 where
  "nanV0 = goodV0\<lparr> posTrack := goodTrack\<lparr>dcaXY := NaN\<rparr>, globalIndex := 4 \<rparr>"

definition exampleBatch :: "V0 list" where
  "exampleBatch = [goodV0, throwingV0, emptyV0, primaryV0]"

text \<open>The fit result of \<open>goodV0\<close>, and a builder whose scratch members hold values left
  over from earlier candidates.\<close>

definition goodFit :: fitState where
  "goodFit = exampleFit (parCov (posTrack goodV0)) (parCov (negTrack goodV0))"

definition usedBuilder :: lambdakzeroBuilder where
  "usedBuilder =
     initialBuilder
       \<lparr> v0candidate := (v0candidate initialBuilder)
            \<lparr>posTrackX := Fin 7, pos := (Fin 1, Fin 1, NaN), dcaV0dau := Fin 3, posDCAxy := NaN\<rparr>,
         fitter := \<lparr>processCalls = 5, current = zeroFit\<lparr>getChi2AtPCACandidate := Fin 4\<rparr>\<rparr>,
         lPositiveTrack := zeroTrack\<lparr>getX := Fin 3\<rparr> \<rparr>"

section \<open>Self-configuration at start-up\<close>

subsection \<open>The scan computes running extrema\<close>

lemma scan_option_fields:
  "loosest_v0cospa (scan_option option L) = upd_min ''v0setting_cospa'' option (loosest_v0cospa L)"
  "loosest_dcav0dau (scan_option option L) = upd_max ''v0setting_dcav0dau'' option (loosest_dcav0dau L)"
  "loosest_dcapostopv (scan_option option L) = upd_min ''v0setting_dcapostopv'' option (loosest_dcapostopv L)"
  "loosest_dcanegtopv (scan_option option L) = upd_min ''v0setting_dcanegtopv'' option (loosest_dcanegtopv L)"
  "loosest_radius (scan_option option L) = upd_min ''v0setting_radius'' option (loosest_radius L)"
  by (simp_all add: scan_option_def upd_min_def upd_max_def Let_def min_def max_def)

lemma fold_min_Min: "fold min xs (r::real) = Min (insert r (set xs))"
  using Min.set_eq_fold [of r xs] by simp

lemma fold_max_Max: "fold max xs (r::real) = Max (insert r (set xs))"
  using Max.set_eq_fold [of r xs] by simp

lemma fold_scan_option_fold:
  "loosest_v0cospa (fold scan_option opts L) = fold min (declared_in ''v0setting_cospa'' opts) (loosest_v0cospa L)"
  "loosest_dcav0dau (fold scan_option opts L) = fold max (declared_in ''v0setting_dcav0dau'' opts) (loosest_dcav0dau L)"
  "loosest_dcapostopv (fold scan_option opts L) = fold min (declared_in ''v0setting_dcapostopv'' opts) (loosest_dcapostopv L)"
  "loosest_dcanegtopv (fold scan_option opts L) = fold min (declared_in ''v0setting_dcanegtopv'' opts) (loosest_dcanegtopv L)"
  "loosest_radius (fold scan_option opts L) = fold min (declared_in ''v0setting_radius'' opts) (loosest_radius L)"
  by (induction opts arbitrary: L; simp add: scan_option_fields declared_in_def upd_min_def upd_max_def)+

lemmas fold_scan_option_fields = fold_scan_option_fold [unfolded fold_min_Min fold_max_Max]

lemma Min_insert_Min:
  fixes r :: real
  assumes "finite A" "finite B"
  shows "Min (insert (Min (insert r A)) B) = Min (insert r (A \<union> B))"
proof (cases "B = {}")
  case True
  then show ?thesis by simp
next
  case False
  have "Min (insert r (A \<union> B)) = Min (insert r A \<union> B)" by simp
  also have "\<dots> = min (Min (insert r A)) (Min B)"
    using assms False by (intro Min.union) auto
  also have "\<dots> = Min (insert (Min (insert r A)) B)"
    using assms False by simp
  finally show ?thesis by simp
qed

lemma Max_insert_Max:
  fixes r :: real
  assumes "finite A" "finite B"
  shows "Max (insert (Max (insert r A)) B) = Max (insert r (A \<union> B))"
proof (cases "B = {}")
  case True
  then show ?thesis by simp
next
  case False
  have "Max (insert r (A \<union> B)) = Max (insert r A \<union> B)" by simp
  also have "\<dots> = max (Max (insert r A)) (Max B)"
    using assms False by (intro Max.union) auto
  also have "\<dots> = Max (insert (Max (insert r A)) B)"
    using assms False by simp
  finally show ?thesis by simp
qed

lemma fold_scan_input_fields:
  "loosest_v0cospa (fst (fold (scan_input d) bs s)) =
     (if heard d bs then Min (insert (loosest_v0cospa (fst s)) (set (declared_in ''v0setting_cospa'' (options d))))
      else loosest_v0cospa (fst s))"
  "loosest_dcav0dau (fst (fold (scan_input d) bs s)) =
     (if heard d bs then Max (insert (loosest_dcav0dau (fst s)) (set (declared_in ''v0setting_dcav0dau'' (options d))))
      else loosest_dcav0dau (fst s))"
  "loosest_dcapostopv (fst (fold (scan_input d) bs s)) =
     (if heard d bs then Min (insert (loosest_dcapostopv (fst s)) (set (declared_in ''v0setting_dcapostopv'' (options d))))
      else loosest_dcapostopv (fst s))"
  "loosest_dcanegtopv (fst (fold (scan_input d) bs s)) =
     (if heard d bs then Min (insert (loosest_dcanegtopv (fst s)) (set (declared_in ''v0setting_dcanegtopv'' (options d))))
      else loosest_dcanegtopv (fst s))"
  "loosest_radius (fst (fold (scan_input d) bs s)) =
     (if heard d bs then Min (insert (loosest_radius (fst s)) (set (declared_in ''v0setting_radius'' (options d))))
      else loosest_radius (fst s))"
proof (induction bs arbitrary: s)
  case Nil
  { case 1 show ?case by (simp add: heard_def) }
  { case 2 show ?case by (simp add: heard_def) }
  { case 3 show ?case by (simp add: heard_def) }
  { case 4 show ?case by (simp add: heard_def) }
  { case 5 show ?case by (simp add: heard_def) }
next
  case (Cons b bs)
  have idemMin: "\<And>(r::real) S. finite S \<Longrightarrow> Min (insert (Min (insert r S)) S) = Min (insert r S)"
    using Min_insert_Min by (metis sup.idem)
  have idemMax: "\<And>(r::real) S. finite S \<Longrightarrow> Max (insert (Max (insert r S)) S) = Max (insert r S)"
    using Max_insert_Max by (metis sup.idem)
  { case 1 show ?case unfolding fold_Cons comp_apply Cons.IH(1)
      by (simp add: heard_def scan_input_def Let_def fold_scan_option_fields idemMin) }
  { case 2 show ?case unfolding fold_Cons comp_apply Cons.IH(2)
      by (simp add: heard_def scan_input_def Let_def fold_scan_option_fields idemMax) }
  { case 3 show ?case unfolding fold_Cons comp_apply Cons.IH(3)
      by (simp add: heard_def scan_input_def Let_def fold_scan_option_fields idemMin) }
  { case 4 show ?case unfolding fold_Cons comp_apply Cons.IH(4)
      by (simp add: heard_def scan_input_def Let_def fold_scan_option_fields idemMin) }
  { case 5 show ?case unfolding fold_Cons comp_apply Cons.IH(5)
      by (simp add: heard_def scan_input_def Let_def fold_scan_option_fields idemMin) }
qed

lemma heard_inputs: "heard d (inputs d) = listens d"
  by (simp add: heard_def listens_def)

lemma declared_Cons:
  "declared key (d # ds) = (if listens d then declared_in key (options d) else []) @ declared key ds"
  by (simp add: declared_def)

lemma fold_scan_device_fields:
  "loosest_v0cospa (fst (fold scan_device ds s)) =
     Min (insert (loosest_v0cospa (fst s)) (set (declared ''v0setting_cospa'' ds)))"
  "loosest_dcav0dau (fst (fold scan_device ds s)) =
     Max (insert (loosest_dcav0dau (fst s)) (set (declared ''v0setting_dcav0dau'' ds)))"
  "loosest_dcapostopv (fst (fold scan_device ds s)) =
     Min (insert (loosest_dcapostopv (fst s)) (set (declared ''v0setting_dcapostopv'' ds)))"
  "loosest_dcanegtopv (fst (fold scan_device ds s)) =
     Min (insert (loosest_dcanegtopv (fst s)) (set (declared ''v0setting_dcanegtopv'' ds)))"
  "loosest_radius (fst (fold scan_device ds s)) =
     Min (insert (loosest_radius (fst s)) (set (declared ''v0setting_radius'' ds)))"
proof (induction ds arbitrary: s)
  case Nil
  { case 1 show ?case by (simp add: declared_def) }
  { case 2 show ?case by (simp add: declared_def) }
  { case 3 show ?case by (simp add: declared_def) }
  { case 4 show ?case by (simp add: declared_def) }
  { case 5 show ?case by (simp add: declared_def) }
next
  case (Cons d ds)
  { case 1 show ?case unfolding fold_Cons comp_apply Cons.IH(1)
      by (simp add: scan_device_def fold_scan_input_fields heard_inputs declared_Cons Min_insert_Min) }
  { case 2 show ?case unfolding fold_Cons comp_apply Cons.IH(2)
      by (simp add: scan_device_def fold_scan_input_fields heard_inputs declared_Cons Max_insert_Max) }
  { case 3 show ?case unfolding fold_Cons comp_apply Cons.IH(3)
      by (simp add: scan_device_def fold_scan_input_fields heard_inputs declared_Cons Min_insert_Min) }
  { case 4 show ?case unfolding fold_Cons comp_apply Cons.IH(4)
      by (simp add: scan_device_def fold_scan_input_fields heard_inputs declared_Cons Min_insert_Min) }
  { case 5 show ?case unfolding fold_Cons comp_apply Cons.IH(5)
      by (simp add: scan_device_def fold_scan_input_fields heard_inputs declared_Cons Min_insert_Min) }
qed

lemma autodetect_thresholds:
  "v0cospa (autodetect ds c) = Fin (Min (insert 100 (set (declared ''v0setting_cospa'' ds))))"
  "dcav0dau (autodetect ds c) = Fin (Max (insert (-100) (set (declared ''v0setting_dcav0dau'' ds))))"
  "dcapostopv (autodetect ds c) = Fin (Min (insert 100 (set (declared ''v0setting_dcapostopv'' ds))))"
  "dcanegtopv (autodetect ds c) = Fin (Min (insert 100 (set (declared ''v0setting_dcanegtopv'' ds))))"
  "v0radius (autodetect ds c) = Fin (Min (insert 100 (set (declared ''v0setting_radius'' ds))))"
  using fold_scan_device_fields [of ds "(loosest_initial, createV0CovMats c)"]
  by (simp_all add: autodetect_def split_beta loosest_initial_def)

lemma init_Inr:
  assumes "init devices b = Inr b'"
  shows "conf b' = (if d_UseAutodetectMode (conf b) then autodetect devices (conf b) else conf b)"
  using assms by (auto simp: init_def Let_def resetHistos_def split: if_splits)

lemma init_fatal_iff: "isl (init devices b) \<longleftrightarrow> enabledModes (conf b) \<noteq> 1"
  by (auto simp: init_def Let_def enabledModes_def resetHistos_def)

lemma init_initialBuilder: "init ds initialBuilder = Inr (projr (init ds initialBuilder))"
proof -
  have "\<not> isl (init ds initialBuilder)"
    by (simp add: init_fatal_iff enabledModes_def initialBuilder_def defaultConfigurables_def)
  then show ?thesis by (cases "init ds initialBuilder") simp_all
qed

lemma autodetect_initialBuilder: "d_UseAutodetectMode (conf initialBuilder)"
  by (simp add: initialBuilder_def defaultConfigurables_def)

lemma declared_exampleWorkflow:
  "declared ''v0setting_radius'' exampleWorkflow = [0.5, 0.9]"
  "declared ''v0setting_dcav0dau'' exampleWorkflow = [0.5, 1.0]"
  "declared ''v0setting_dcapostopv'' exampleWorkflow = [0.05, 0.1]"
  "declared ''v0setting_dcanegtopv'' exampleWorkflow = [0.2, 0.1]"
  "declared ''v0setting_cospa'' exampleWorkflow = [0.99, 0.95]"
  by (simp_all add: declared_def declared_in_def listens_def exampleWorkflow_def consumerA_def
      consumerB_def initializerDevice_def)

lemma declared_quietWorkflow:
  "declared ''v0setting_dcanegtopv'' quietWorkflow = []"
  "declared ''v0setting_dcapostopv'' quietWorkflow = []"
  "declared ''v0setting_cospa'' quietWorkflow = []"
  "declared ''v0setting_dcav0dau'' quietWorkflow = []"
  "declared ''v0setting_radius'' quietWorkflow = []"
  by (simp_all add: declared_def declared_in_def listens_def quietWorkflow_def)

subsection \<open>Claim C1: the negotiated thresholds\<close>

text \<open>
  C1 as stated says that a threshold declared by at least one consumer is negotiated to
  the loosest declared value. The running extrema start from the sentinels 100 and
  -100, which take part in the comparison: a single consumer that asks for a minimum
  radius of 150 leaves the radius at 100.
\<close>

theorem negotiated_radius_counterexample:
  "declared ''v0setting_radius'' farWorkflow = [150] \<and>
   v0radius (conf (projr (init farWorkflow initialBuilder))) = Fin 100 \<and>
   v0radius (conf (projr (init farWorkflow initialBuilder)))
     \<noteq> Fin (Min (set (declared ''v0setting_radius'' farWorkflow)))"
  by (simp add: declared_def declared_in_def listens_def farWorkflow_def init_def Let_def
      resetHistos_def initialBuilder_def defaultConfigurables_def autodetect_def scan_device_def
      scan_input_def scan_option_def loosest_initial_def)

text \<open>
  C1, amended: when \<open>init\<close> succeeds with autodetect mode on, each negotiated threshold
  is the loosest value among the sentinel and all defaults declared by the devices
  listened to (those with an input bound to \<open>V0Datas\<close>, other than
  \<open>lambdakzero-initializer\<close> and \<open>multistrange-builder\<close>): \<open>v0radius\<close>, \<open>dcapostopv\<close>,
  \<open>dcanegtopv\<close> and \<open>v0cospa\<close> are the smallest of 100 and the declared defaults,
  \<open>dcav0dau\<close> is the largest of -100 and the declared defaults.
\<close>

theorem negotiated_loosest_or_sentinel:
  assumes "init devices b = Inr b'" and "d_UseAutodetectMode (conf b)"
  shows "v0radius (conf b') = Fin (Min (insert 100 (set (declared ''v0setting_radius'' devices)))) \<and>
         dcav0dau (conf b') = Fin (Max (insert (-100) (set (declared ''v0setting_dcav0dau'' devices)))) \<and>
         dcapostopv (conf b') = Fin (Min (insert 100 (set (declared ''v0setting_dcapostopv'' devices)))) \<and>
         dcanegtopv (conf b') = Fin (Min (insert 100 (set (declared ''v0setting_dcanegtopv'' devices)))) \<and>
         v0cospa (conf b') = Fin (Min (insert 100 (set (declared ''v0setting_cospa'' devices))))"
  using init_Inr [OF assms(1)] assms(2) by (simp add: autodetect_thresholds)

text \<open>Two consumers asking for a minimum radius of 0.5 and of 0.9 negotiate 0.5; the
  setting of the initializer (0.01) is not heard.\<close>

theorem negotiated_loosest_or_sentinel_witness:
  "init exampleWorkflow initialBuilder = Inr (projr (init exampleWorkflow initialBuilder)) \<and>
   d_UseAutodetectMode (conf initialBuilder) \<and>
   v0radius (conf (projr (init exampleWorkflow initialBuilder))) = Fin 0.5 \<and>
   dcav0dau (conf (projr (init exampleWorkflow initialBuilder))) = Fin 1.0 \<and>
   dcapostopv (conf (projr (init exampleWorkflow initialBuilder))) = Fin 0.05 \<and>
   dcanegtopv (conf (projr (init exampleWorkflow initialBuilder))) = Fin 0.1 \<and>
   v0cospa (conf (projr (init exampleWorkflow initialBuilder))) = Fin 0.95"
  using init_initialBuilder [of exampleWorkflow] autodetect_initialBuilder
    negotiated_loosest_or_sentinel [OF init_initialBuilder autodetect_initialBuilder, of exampleWorkflow]
  by (simp add: declared_exampleWorkflow)

subsection \<open>Claim C2: no consumer declares a threshold\<close>

text \<open>
  C2 as stated says that the thresholds then equal the defaults of the configurables.
  With one device that reads \<open>V0Datas\<close> and declares none of the settings, the
  thresholds after \<open>init\<close> are the sentinels: the minimum radius is 100, not 0.9.
\<close>

theorem no_consumer_defaults_counterexample:
  "d_UseAutodetectMode (conf initialBuilder) \<and>
   declared ''v0setting_radius'' quietWorkflow = [] \<and>
   declared ''v0setting_dcav0dau'' quietWorkflow = [] \<and>
   declared ''v0setting_dcapostopv'' quietWorkflow = [] \<and>
   declared ''v0setting_dcanegtopv'' quietWorkflow = [] \<and>
   declared ''v0setting_cospa'' quietWorkflow = [] \<and>
   v0radius (conf (projr (init quietWorkflow initialBuilder))) = Fin 100 \<and>
   \<not> (dcanegtopv (conf (projr (init quietWorkflow initialBuilder))) = Fin 0.1 \<and>
      dcapostopv (conf (projr (init quietWorkflow initialBuilder))) = Fin 0.1 \<and>
      v0cospa (conf (projr (init quietWorkflow initialBuilder))) = Fin 0.995 \<and>
      dcav0dau (conf (projr (init quietWorkflow initialBuilder))) = Fin 1.0 \<and>
      v0radius (conf (projr (init quietWorkflow initialBuilder))) = Fin 0.9)"
  by (simp add: declared_def declared_in_def listens_def quietWorkflow_def init_def Let_def
      resetHistos_def initialBuilder_def defaultConfigurables_def autodetect_def scan_device_def
      scan_input_def scan_option_def loosest_initial_def)

text \<open>
  C2, amended: when autodetect mode is on and no device listened to declares any of
  the five settings, the thresholds after \<open>init\<close> are the initial values of the running
  extrema: \<open>dcanegtopv = 100\<close>, \<open>dcapostopv = 100\<close>, \<open>v0cospa = 100\<close>,
  \<open>dcav0dau = -100\<close>, \<open>v0radius = 100\<close>.
\<close>

theorem no_consumer_sentinels:
  assumes "init devices b = Inr b'" and "d_UseAutodetectMode (conf b)"
    and "declared ''v0setting_dcanegtopv'' devices = []"
    and "declared ''v0setting_dcapostopv'' devices = []"
    and "declared ''v0setting_cospa'' devices = []"
    and "declared ''v0setting_dcav0dau'' devices = []"
    and "declared ''v0setting_radius'' devices = []"
  shows "dcanegtopv (conf b') = Fin 100 \<and> dcapostopv (conf b') = Fin 100 \<and>
         v0cospa (conf b') = Fin 100 \<and> dcav0dau (conf b') = Fin (- 100) \<and>
         v0radius (conf b') = Fin 100"
  using init_Inr [OF assms(1)] assms(2-) by (simp add: autodetect_thresholds)

theorem no_consumer_sentinels_witness:
  "init quietWorkflow initialBuilder = Inr (projr (init quietWorkflow initialBuilder)) \<and>
   d_UseAutodetectMode (conf initialBuilder) \<and>
   declared ''v0setting_dcanegtopv'' quietWorkflow = [] \<and>
   declared ''v0setting_dcapostopv'' quietWorkflow = [] \<and>
   declared ''v0setting_cospa'' quietWorkflow = [] \<and>
   declared ''v0setting_dcav0dau'' quietWorkflow = [] \<and>
   declared ''v0setting_radius'' quietWorkflow = [] \<and>
   dcanegtopv (conf (projr (init quietWorkflow initialBuilder))) = Fin 100 \<and>
   dcapostopv (conf (projr (init quietWorkflow initialBuilder))) = Fin 100 \<and>
   v0cospa (conf (projr (init quietWorkflow initialBuilder))) = Fin 100 \<and>
   dcav0dau (conf (projr (init quietWorkflow initialBuilder))) = Fin (- 100) \<and>
   v0radius (conf (projr (init quietWorkflow initialBuilder))) = Fin 100"
  using init_initialBuilder [of quietWorkflow] autodetect_initialBuilder
    no_consumer_sentinels [OF init_initialBuilder autodetect_initialBuilder declared_quietWorkflow]
  by (simp add: declared_quietWorkflow)

subsection \<open>Claim C8: the process switches\<close>

text \<open>
  C8: \<open>init\<close> ends in a fatal error exactly when the number of enabled processing modes
  among \<open>processRun2\<close>, \<open>processRun3\<close> and \<open>processRun3associated\<close> is not one: with none
  or with two or more enabled it is fatal, and with a single mode enabled it completes.
  \<open>init\<close> runs before any event is processed, and a fatal \<open>init\<close> yields no builder to
  process events with.
\<close>

theorem init_fatal_unless_single_mode:
  "isl (init devices b) \<longleftrightarrow> enabledModes (conf b) \<noteq> 1"
  by (auto simp: init_def Let_def enabledModes_def resetHistos_def)

theorem init_fatal_unless_single_mode_witness:
  "isl (init exampleWorkflow (initialBuilder\<lparr>conf := defaultConfigurables\<lparr>doprocessRun3 := True\<rparr>\<rparr>)) \<and>
   isl (init exampleWorkflow
          (initialBuilder\<lparr>conf := defaultConfigurables\<lparr>doprocessRun3associated := True\<rparr>\<rparr>)) \<and>
   isl (init exampleWorkflow (initialBuilder\<lparr>conf := defaultConfigurables\<lparr>doprocessRun2 := False\<rparr>\<rparr>)) \<and>
   \<not> isl (init exampleWorkflow initialBuilder)"
  using
    init_fatal_unless_single_mode
      [of exampleWorkflow "initialBuilder\<lparr>conf := defaultConfigurables\<lparr>doprocessRun3 := True\<rparr>\<rparr>"]
    init_fatal_unless_single_mode
      [of exampleWorkflow "initialBuilder\<lparr>conf := defaultConfigurables\<lparr>doprocessRun3associated := True\<rparr>\<rparr>"]
    init_fatal_unless_single_mode
      [of exampleWorkflow "initialBuilder\<lparr>conf := defaultConfigurables\<lparr>doprocessRun2 := False\<rparr>\<rparr>"]
    init_fatal_unless_single_mode [of exampleWorkflow initialBuilder]
  by (simp add: enabledModes_def initialBuilder_def defaultConfigurables_def)

section \<open>The candidate builder\<close>

subsection \<open>One candidate\<close>

lemma count_step_frame [simp]:
  "conf (count_step i b) = conf b"
  "fitter (count_step i b) = fitter b"
  "v0candidate (count_step i b) = v0candidate b"
  "registry (count_step i b) = registry b"
  "lPositiveTrack (count_step i b) = lPositiveTrack b"
  "lNegativeTrack (count_step i b) = lNegativeTrack b"
  "v0data (count_step i b) = v0data b"
  "v0covs (count_step i b) = v0covs b"
  "exceptions (statisticsRegistry (count_step i b)) = exceptions (statisticsRegistry b)"
  "eventCounter (statisticsRegistry (count_step i b)) = eventCounter (statisticsRegistry b)"
  "v0stats (statisticsRegistry (count_step i b)) =
     (v0stats (statisticsRegistry b))[i := v0stats (statisticsRegistry b) ! i + 1]"
  by (simp_all add: count_step_def)

lemma fitAndSelect_conf [simp]: "conf (snd (fitAndSelect ext collision b)) = conf b"
  by (simp add: fitAndSelect_def fitter_process_def Let_def split: processResult.splits option.splits prod.splits)

lemma buildV0Candidate_conf [simp]: "conf (snd (buildV0Candidate ext collision p n b)) = conf b"
  by (simp add: buildV0Candidate_def Let_def)

lemma length7:
  assumes "length v = kNV0Steps"
  obtains a0 a1 a2 a3 a4 a5 a6 where "v = [a0, a1, a2, a3, a4, a5, a6 :: int]"
proof -
  from assms have "length v = Suc (Suc (Suc (Suc (Suc (Suc (Suc 0))))))"
    by (simp add: kNV0Steps_def eval_nat_numeral)
  then show ?thesis
    by (auto simp: length_Suc_conv intro: that)
qed

lemma buildV0Candidate_paths:
  "buildV0Candidate ext collision p n b =
     (if \<not> passesTPCrefit (conf b) ext p n then (False, count_step kV0All b)
      else if \<not> passesCrossedRows (conf b) p n
      then (False, count_step kV0TPCrefit (count_step kV0All b))
      else if \<not> passesDCAxy (conf b) p n
      then (False, count_step kV0CrossedRows (count_step kV0TPCrefit (count_step kV0All b)))
      else fitAndSelect ext collision (prefit_state p n b))"
  by (auto simp: buildV0Candidate_def Let_def passesTPCrefit_def passesCrossedRows_def
      passesDCAxy_def prefit_state_def)

lemma prefit_state_frame [simp]:
  "conf (prefit_state p n b) = conf b"
  "fitter (prefit_state p n b) = fitter b"
  "registry (prefit_state p n b) = registry b"
  "lPositiveTrack (prefit_state p n b) = parCov p"
  "lNegativeTrack (prefit_state p n b) = parCov n"
  "v0data (prefit_state p n b) = v0data b"
  "v0covs (prefit_state p n b) = v0covs b"
  "exceptions (statisticsRegistry (prefit_state p n b)) = exceptions (statisticsRegistry b)"
  "eventCounter (statisticsRegistry (prefit_state p n b)) = eventCounter (statisticsRegistry b)"
  "posDCAxy (v0candidate (prefit_state p n b)) = dcaXY p"
  "negDCAxy (v0candidate (prefit_state p n b)) = dcaXY n"
  by (simp_all add: prefit_state_def)

lemma prefit_state_stats:
  "v0stats (statisticsRegistry (prefit_state p n b)) =
     v0stats (statisticsRegistry (count_step kV0DCAxy (count_step kV0CrossedRows
          (count_step kV0TPCrefit (count_step kV0All b)))))"
  by (simp add: prefit_state_def)

lemma fitAndSelect_frame [simp]:
  "registry (snd (fitAndSelect ext collision b)) = registry b"
  "v0data (snd (fitAndSelect ext collision b)) = v0data b"
  "v0covs (snd (fitAndSelect ext collision b)) = v0covs b"
  "eventCounter (statisticsRegistry (snd (fitAndSelect ext collision b))) = eventCounter (statisticsRegistry b)"
  "posDCAxy (v0candidate (snd (fitAndSelect ext collision b))) = posDCAxy (v0candidate b)"
  "negDCAxy (v0candidate (snd (fitAndSelect ext collision b))) = negDCAxy (v0candidate b)"
  "processCalls (fitter (snd (fitAndSelect ext collision b))) = processCalls (fitter b) + 1"
  by (simp_all add: fitAndSelect_def fitter_process_def Let_def split: processResult.splits)

lemma fitAndSelect_Throws:
  assumes "process ext (lPositiveTrack b) (lNegativeTrack b) = Throws"
  shows "fitAndSelect ext collision b =
           (False, b\<lparr>fitter := (fitter b)\<lparr>processCalls := processCalls (fitter b) + 1\<rparr>,
                     statisticsRegistry := (statisticsRegistry b)
                        \<lparr>exceptions := exceptions (statisticsRegistry b) + 1\<rparr>\<rparr>)"
  using assms by (simp add: fitAndSelect_def fitter_process_def Let_def)

lemma fitAndSelect_Returns_zero:
  assumes "process ext (lPositiveTrack b) (lNegativeTrack b) = Returns 0 r"
  shows "fitAndSelect ext collision b =
           (False, b\<lparr>fitter := \<lparr>processCalls = processCalls (fitter b) + 1, current = r\<rparr>\<rparr>)"
  using assms by (simp add: fitAndSelect_def fitter_process_def Let_def)

lemma fitAndSelect_exceptions:
  "exceptions (statisticsRegistry (snd (fitAndSelect ext collision b))) =
     exceptions (statisticsRegistry b) +
       (if process ext (lPositiveTrack b) (lNegativeTrack b) = Throws then 1 else 0)"
  by (simp add: fitAndSelect_def fitter_process_def Let_def split: processResult.splits)

lemma fitAndSelect_Returns:
  assumes "process ext (lPositiveTrack b) (lNegativeTrack b) = Returns nCand r" and "nCand \<noteq> 0"
  shows "fst (fitAndSelect ext collision b) \<longleftrightarrow> cutsPassed (conf b) ext collision r = 3"
    and "fitter (snd (fitAndSelect ext collision b)) =
           \<lparr>processCalls = processCalls (fitter b) + 1, current = r\<rparr>"
    and "lPositiveTrack (snd (fitAndSelect ext collision b)) = getTrack0 r"
    and "lNegativeTrack (snd (fitAndSelect ext collision b)) = getTrack1 r"
    and "posTrackX (v0candidate (snd (fitAndSelect ext collision b))) = getX (getTrack0 r)"
    and "negTrackX (v0candidate (snd (fitAndSelect ext collision b))) = getX (getTrack1 r)"
    and "pos (v0candidate (snd (fitAndSelect ext collision b))) = vnarrow ext (getPCACandidate r)"
    and "posP (v0candidate (snd (fitAndSelect ext collision b))) = getPxPyPzGlo (getTrack0 r)"
    and "negP (v0candidate (snd (fitAndSelect ext collision b))) = getPxPyPzGlo (getTrack1 r)"
    and "dcaV0dau (v0candidate (snd (fitAndSelect ext collision b))) =
           narrow ext (TMath_Sqrt ext (getChi2AtPCACandidate r))"
  using assms by (simp_all add: fitAndSelect_def fitter_process_def Let_def cutsPassed_def)

lemma fitAndSelect_stats_Returns:
  assumes "process ext (lPositiveTrack b) (lNegativeTrack b) = Returns nCand r" and "nCand \<noteq> 0"
    and "v0stats (statisticsRegistry b) = [a0, a1, a2, a3, a4, a5, a6]"
  shows "v0stats (statisticsRegistry (snd (fitAndSelect ext collision b))) =
           [a0, a1, a2, a3,
            if 1 \<le> cutsPassed (conf b) ext collision r then a4 + 1 else a4,
            if 2 \<le> cutsPassed (conf b) ext collision r then a5 + 1 else a5,
            if 3 \<le> cutsPassed (conf b) ext collision r then a6 + 1 else a6]"
  using assms
  by (simp add: fitAndSelect_def fitter_process_def Let_def cutsPassed_def v0step_defs)

lemma cutsPassed_le: "cutsPassed c ext collision r \<le> 3"
  by (simp add: cutsPassed_def)

lemma stagesReached_bounds:
  "1 \<le> stagesReached c ext collision p n \<and> stagesReached c ext collision p n \<le> kNV0Steps"
  using cutsPassed_le [of c ext collision]
  by (auto simp: stagesReached_def kNV0Steps_def split: processResult.splits)

lemma buildV0Candidate_stats_exact:
  assumes "length (v0stats (statisticsRegistry b)) = kNV0Steps"
  shows "v0stats (statisticsRegistry (snd (buildV0Candidate ext collision p n b))) =
           bump_prefix (stagesReached (conf b) ext collision p n) (v0stats (statisticsRegistry b))"
proof -
  obtain a0 a1 a2 a3 a4 a5 a6 where v: "v0stats (statisticsRegistry b) = [a0, a1, a2, a3, a4, a5, a6]"
    using assms by (rule length7)
  have pre: "v0stats (statisticsRegistry (prefit_state p n b)) = [a0 + 1, a1 + 1, a2 + 1, a3 + 1, a4, a5, a6]"
    by (simp add: prefit_state_stats v v0step_defs)
  show ?thesis
  proof (cases "reachesFit (conf b) ext p n")
    case False
    then show ?thesis
      by (auto simp: buildV0Candidate_paths stagesReached_def reachesFit_def v bump_prefix_def v0step_defs)
  next
    case True
    then have eq: "buildV0Candidate ext collision p n b = fitAndSelect ext collision (prefit_state p n b)"
      by (simp add: buildV0Candidate_paths reachesFit_def)
    show ?thesis
    proof (cases "process ext (parCov p) (parCov n)")
      case Throws
      with True show ?thesis
        by (simp add: eq fitAndSelect_Throws stagesReached_def reachesFit_def pre v bump_prefix_def)
    next
      case (Returns nCand r)
      show ?thesis
      proof (cases "nCand = 0")
        case z: True
        with True Returns show ?thesis
          by (simp add: eq fitAndSelect_Returns_zero stagesReached_def reachesFit_def pre v bump_prefix_def)
      next
        case nz: False
        have "cutsPassed (conf b) ext collision r \<in> {0, 1, 2, 3}"
          using cutsPassed_le [of "conf b" ext collision r] by auto
        with True Returns nz
          fitAndSelect_stats_Returns [of ext "prefit_state p n b" nCand r, OF _ nz pre, of collision]
        show ?thesis
          by (auto simp: eq stagesReached_def reachesFit_def v bump_prefix_def)
      qed
    qed
  qed
qed

lemma bump_prefix_length [simp]: "length (bump_prefix k v) = length v"
  by (simp add: bump_prefix_def)

lemma bump_prefix_nonincreasing:
  assumes "length v = kNV0Steps" and "nonincreasing v"
  shows "nonincreasing (bump_prefix k v)"
proof -
  obtain a0 a1 a2 a3 a4 a5 a6 where v: "v = [a0, a1, a2, a3, a4, a5, a6]"
    using assms(1) by (rule length7)
  from assms(2) show ?thesis
    by (simp add: v nonincreasing_def bump_prefix_def v0step_defs)
qed

lemma buildV0Candidate_counters_ok:
  assumes "counters_ok b"
  shows "counters_ok (snd (buildV0Candidate ext collision p n b))"
  using assms by (simp add: counters_ok_def buildV0Candidate_stats_exact bump_prefix_nonincreasing)

lemma v0loop_body_stats:
  "statisticsRegistry (v0loop_body ext collision v b) =
     statisticsRegistry (snd (buildV0Candidate ext collision (posTrack v) (negTrack v) b))"
  by (simp add: v0loop_body_def Let_def split_beta)

lemma v0loop_body_counters_ok:
  "counters_ok b \<Longrightarrow> counters_ok (v0loop_body ext collision v b)"
  using buildV0Candidate_counters_ok [of b ext collision "posTrack v" "negTrack v"]
  by (simp add: counters_ok_def v0loop_body_stats)

lemma fold_v0loop_body_counters_ok:
  "counters_ok b \<Longrightarrow> counters_ok (fold (v0loop_body ext collision) V0s b)"
  by (induction V0s arbitrary: b) (simp_all add: v0loop_body_counters_ok)

lemma counters_ok_reset: "counters_ok (count_event (resetHistos b))"
  by (simp add: counters_ok_def count_event_def resetHistos_def nonincreasing_def v0step_defs)

lemma buildV0Candidate_frame [simp]:
  "registry (snd (buildV0Candidate ext collision p n b)) = registry b"
  "v0data (snd (buildV0Candidate ext collision p n b)) = v0data b"
  "v0covs (snd (buildV0Candidate ext collision p n b)) = v0covs b"
  "eventCounter (statisticsRegistry (snd (buildV0Candidate ext collision p n b))) =
     eventCounter (statisticsRegistry b)"
  by (simp_all add: buildV0Candidate_paths)

lemma buildV0Candidate_processCalls:
  "processCalls (fitter (snd (buildV0Candidate ext collision p n b))) =
     processCalls (fitter b) + (if reachesFit (conf b) ext p n then 1 else 0)"
  by (simp add: buildV0Candidate_paths reachesFit_def)

lemma buildV0Candidate_exceptions:
  "exceptions (statisticsRegistry (snd (buildV0Candidate ext collision p n b))) =
     exceptions (statisticsRegistry b) +
       (if reachesFit (conf b) ext p n \<and> process ext (parCov p) (parCov n) = Throws then 1 else 0)"
  by (simp add: buildV0Candidate_paths reachesFit_def fitAndSelect_exceptions)

lemma buildV0Candidate_rejects:
  assumes "\<not> reachesFit (conf b) ext p n"
  shows "\<not> fst (buildV0Candidate ext collision p n b)"
  using assms by (auto simp: buildV0Candidate_paths reachesFit_def)

lemma buildV0Candidate_Throws:
  assumes "reachesFit (conf b) ext p n" and "process ext (parCov p) (parCov n) = Throws"
  shows "\<not> fst (buildV0Candidate ext collision p n b)"
  using assms by (simp add: buildV0Candidate_paths reachesFit_def fitAndSelect_Throws)

lemma buildV0Candidate_Returns_zero:
  assumes "reachesFit (conf b) ext p n" and "process ext (parCov p) (parCov n) = Returns 0 r"
  shows "\<not> fst (buildV0Candidate ext collision p n b)"
  using assms by (simp add: buildV0Candidate_paths reachesFit_def fitAndSelect_Returns_zero)

lemma buildV0Candidate_Returns:
  assumes "reachesFit (conf b) ext p n" and "process ext (parCov p) (parCov n) = Returns nCand r"
    and "nCand \<noteq> 0"
  shows "fst (buildV0Candidate ext collision p n b) \<longleftrightarrow> cutsPassed (conf b) ext collision r = 3"
    and "current (fitter (snd (buildV0Candidate ext collision p n b))) = r"
    and "lPositiveTrack (snd (buildV0Candidate ext collision p n b)) = getTrack0 r"
    and "lNegativeTrack (snd (buildV0Candidate ext collision p n b)) = getTrack1 r"
    and "posTrackX (v0candidate (snd (buildV0Candidate ext collision p n b))) = getX (getTrack0 r)"
    and "negTrackX (v0candidate (snd (buildV0Candidate ext collision p n b))) = getX (getTrack1 r)"
    and "pos (v0candidate (snd (buildV0Candidate ext collision p n b))) = vnarrow ext (getPCACandidate r)"
    and "posP (v0candidate (snd (buildV0Candidate ext collision p n b))) = getPxPyPzGlo (getTrack0 r)"
    and "negP (v0candidate (snd (buildV0Candidate ext collision p n b))) = getPxPyPzGlo (getTrack1 r)"
    and "dcaV0dau (v0candidate (snd (buildV0Candidate ext collision p n b))) =
           narrow ext (TMath_Sqrt ext (getChi2AtPCACandidate r))"
    and "posDCAxy (v0candidate (snd (buildV0Candidate ext collision p n b))) = dcaXY p"
    and "negDCAxy (v0candidate (snd (buildV0Candidate ext collision p n b))) = dcaXY n"
proof -
  have eq: "buildV0Candidate ext collision p n b = fitAndSelect ext collision (prefit_state p n b)"
    using assms(1) by (simp add: buildV0Candidate_paths reachesFit_def)
  have pr: "process ext (lPositiveTrack (prefit_state p n b)) (lNegativeTrack (prefit_state p n b)) =
              Returns nCand r"
    using assms(2) by simp
  note R = fitAndSelect_Returns [OF pr assms(3), of collision]
  show "fst (buildV0Candidate ext collision p n b) \<longleftrightarrow> cutsPassed (conf b) ext collision r = 3"
    using R(1) by (simp add: eq)
  show "current (fitter (snd (buildV0Candidate ext collision p n b))) = r"
    using R(2) by (simp add: eq)
  show "lPositiveTrack (snd (buildV0Candidate ext collision p n b)) = getTrack0 r"
    using R(3) by (simp add: eq)
  show "lNegativeTrack (snd (buildV0Candidate ext collision p n b)) = getTrack1 r"
    using R(4) by (simp add: eq)
  show "posTrackX (v0candidate (snd (buildV0Candidate ext collision p n b))) = getX (getTrack0 r)"
    using R(5) by (simp add: eq)
  show "negTrackX (v0candidate (snd (buildV0Candidate ext collision p n b))) = getX (getTrack1 r)"
    using R(6) by (simp add: eq)
  show "pos (v0candidate (snd (buildV0Candidate ext collision p n b))) = vnarrow ext (getPCACandidate r)"
    using R(7) by (simp add: eq)
  show "posP (v0candidate (snd (buildV0Candidate ext collision p n b))) = getPxPyPzGlo (getTrack0 r)"
    using R(8) by (simp add: eq)
  show "negP (v0candidate (snd (buildV0Candidate ext collision p n b))) = getPxPyPzGlo (getTrack1 r)"
    using R(9) by (simp add: eq)
  show "dcaV0dau (v0candidate (snd (buildV0Candidate ext collision p n b))) =
           narrow ext (TMath_Sqrt ext (getChi2AtPCACandidate r))"
    using R(10) by (simp add: eq)
  show "posDCAxy (v0candidate (snd (buildV0Candidate ext collision p n b))) = dcaXY p"
    by (simp add: eq)
  show "negDCAxy (v0candidate (snd (buildV0Candidate ext collision p n b))) = dcaXY n"
    by (simp add: eq)
qed

lemma buildV0Candidate_accepted:
  "fst (buildV0Candidate ext collision (posTrack v) (negTrack v) b) \<longleftrightarrow>
     accepted (conf b) ext collision v \<noteq> None"
proof (cases "reachesFit (conf b) ext (posTrack v) (negTrack v)")
  case False
  then show ?thesis by (simp add: buildV0Candidate_rejects accepted_def)
next
  case True
  show ?thesis
  proof (cases "process ext (parCov (posTrack v)) (parCov (negTrack v))")
    case Throws
    with True show ?thesis by (simp add: buildV0Candidate_Throws accepted_def)
  next
    case (Returns nCand r)
    show ?thesis
    proof (cases "nCand = 0")
      case True
      with \<open>reachesFit (conf b) ext (posTrack v) (negTrack v)\<close> Returns show ?thesis
        by (simp add: buildV0Candidate_Returns_zero accepted_def)
    next
      case False
      with True Returns buildV0Candidate_Returns(1) [OF True Returns False, of collision]
      show ?thesis by (simp add: accepted_def)
    qed
  qed
qed

lemma accepted_SomeD:
  assumes "accepted c ext collision v = Some r"
  obtains nCand where "reachesFit c ext (posTrack v) (negTrack v)"
    and "process ext (parCov (posTrack v)) (parCov (negTrack v)) = Returns nCand r"
    and "nCand \<noteq> 0" and "cutsPassed c ext collision r = 3"
  using assms by (auto simp: accepted_def split: if_splits processResult.splits)

lemma triple_comps [simp]: "(comp0 t, comp1 t, comp2 t) = t"
  by (simp add: comp0_def comp1_def comp2_def)

lemma buildV0Candidate_row:
  assumes "accepted (conf b) ext collision v = Some r"
  shows "v0data_row v (v0candidate (snd (buildV0Candidate ext collision (posTrack v) (negTrack v) b))) =
           fit_row ext v r"
    and "v0covs_row ext (snd (buildV0Candidate ext collision (posTrack v) (negTrack v) b)) = fit_cov ext r"
proof -
  from assms obtain nCand where h: "reachesFit (conf b) ext (posTrack v) (negTrack v)"
    "process ext (parCov (posTrack v)) (parCov (negTrack v)) = Returns nCand r" "nCand \<noteq> 0"
    by (rule accepted_SomeD)
  note R = buildV0Candidate_Returns [OF h, of collision]
  show "v0data_row v (v0candidate (snd (buildV0Candidate ext collision (posTrack v) (negTrack v) b))) =
           fit_row ext v r"
    by (simp add: v0data_row_def fit_row_def R)
  show "v0covs_row ext (snd (buildV0Candidate ext collision (posTrack v) (negTrack v) b)) = fit_cov ext r"
    by (simp add: v0covs_row_def fit_cov_def R Let_def)
qed

lemma v0loop_body_conf [simp]: "conf (v0loop_body ext collision v b) = conf b"
  by (simp add: v0loop_body_def Let_def split_beta)

lemma v0loop_body_tables:
  "v0data (v0loop_body ext collision v b) = v0data b @ expected_v0data (conf b) ext collision [v]"
  "v0covs (v0loop_body ext collision v b) = v0covs b @ expected_v0covs (conf b) ext collision [v]"
proof -
  show "v0data (v0loop_body ext collision v b) = v0data b @ expected_v0data (conf b) ext collision [v]"
  proof (cases "accepted (conf b) ext collision v")
    case None
    then show ?thesis
      by (simp add: v0loop_body_def Let_def split_beta buildV0Candidate_accepted expected_v0data_def)
  next
    case (Some r)
    then show ?thesis
      by (simp add: v0loop_body_def Let_def split_beta buildV0Candidate_accepted expected_v0data_def
          buildV0Candidate_row)
  qed
  show "v0covs (v0loop_body ext collision v b) = v0covs b @ expected_v0covs (conf b) ext collision [v]"
  proof (cases "accepted (conf b) ext collision v")
    case None
    then show ?thesis
      by (simp add: v0loop_body_def Let_def split_beta buildV0Candidate_accepted expected_v0covs_def)
  next
    case (Some r)
    have "v0covs_row ext ((snd (buildV0Candidate ext collision (posTrack v) (negTrack v) b))
            \<lparr>v0data := xs\<rparr>) = fit_cov ext r" for xs
      using buildV0Candidate_row(2) [OF Some] by (simp add: v0covs_row_def)
    with Some show ?thesis
      by (simp add: v0loop_body_def Let_def split_beta buildV0Candidate_accepted expected_v0covs_def)
  qed
qed

subsection \<open>A batch\<close>

lemma expected_v0data_Cons:
  "expected_v0data c ext collision (v # vs) =
     expected_v0data c ext collision [v] @ expected_v0data c ext collision vs"
  by (simp add: expected_v0data_def)

lemma expected_v0covs_Cons:
  "expected_v0covs c ext collision (v # vs) =
     expected_v0covs c ext collision [v] @ expected_v0covs c ext collision vs"
  by (simp add: expected_v0covs_def)

lemma expected_v0data_append:
  "expected_v0data c ext collision (us @ vs) =
     expected_v0data c ext collision us @ expected_v0data c ext collision vs"
  by (simp add: expected_v0data_def)

lemma fold_v0loop_body_conf [simp]: "conf (fold (v0loop_body ext collision) V0s b) = conf b"
  by (induction V0s arbitrary: b) simp_all

lemma fold_v0loop_body_tables:
  "v0data (fold (v0loop_body ext collision) V0s b) = v0data b @ expected_v0data (conf b) ext collision V0s"
  "v0covs (fold (v0loop_body ext collision) V0s b) = v0covs b @ expected_v0covs (conf b) ext collision V0s"
proof (induction V0s arbitrary: b)
  case Nil
  { case 1 show ?case by (simp add: expected_v0data_def) }
  { case 2 show ?case by (simp add: expected_v0covs_def) }
next
  case (Cons v vs)
  { case 1 show ?case
      using expected_v0data_Cons [of "conf b" ext collision v vs]
      by (simp add: Cons.IH(1) v0loop_body_tables) }
  { case 2 show ?case
      using expected_v0covs_Cons [of "conf b" ext collision v vs]
      by (simp add: Cons.IH(2) v0loop_body_tables) }
qed

lemma buildStrangenessTables_frame [simp]:
  "conf (buildStrangenessTables ext collision V0s b) = conf b"
  by (simp add: buildStrangenessTables_def resetHistos_def fillHistos_def Let_def count_event_def)

lemma buildStrangenessTables_tables:
  "v0data (buildStrangenessTables ext collision V0s b) =
     v0data b @ expected_v0data (conf b) ext collision V0s"
  "v0covs (buildStrangenessTables ext collision V0s b) =
     v0covs b @ expected_v0covs (conf b) ext collision V0s"
  by (simp_all add: buildStrangenessTables_def resetHistos_def fillHistos_def Let_def
      fold_v0loop_body_tables count_event_def)

lemma new_tables:
  "new_v0data ext collision V0s b = expected_v0data (conf b) ext collision V0s"
  "new_v0covs ext collision V0s b = expected_v0covs (conf b) ext collision V0s"
  by (simp_all add: new_v0data_def new_v0covs_def buildStrangenessTables_tables)

lemma fl_lt_NaN [simp]: "\<not> fl_lt x NaN" "\<not> fl_lt NaN x"
  by (cases x; simp)+

lemma within_iff:
  "unordered x t \<or> atLeast_fl x t \<longleftrightarrow> \<not> fl_lt x t"
  "unordered x t \<or> atMost_fl x t \<longleftrightarrow> \<not> fl_lt t x"
  by (auto simp: atLeast_fl_def atMost_fl_def fl_le_def unordered_def)

lemma comp_vnarrow [simp]:
  "comp0 (vnarrow ext v) = narrow ext (comp0 v)"
  "comp1 (vnarrow ext v) = narrow ext (comp1 v)"
  "comp2 (vnarrow ext v) = narrow ext (comp2 v)"
  by (simp_all add: vnarrow_def comp0_def comp1_def comp2_def)

lemma cutsPassed_3:
  "cutsPassed c ext collision r = 3 \<longleftrightarrow>
     \<not> fl_lt (dcav0dau c) (narrow ext (TMath_Sqrt ext (getChi2AtPCACandidate r))) \<and>
     \<not> fl_lt (narrow ext (cpa ext collision (vnarrow ext (getPCACandidate r))
           (vsum ext (getPxPyPzGlo (getTrack0 r)) (getPxPyPzGlo (getTrack1 r))))) (v0cospa c) \<and>
     \<not> fl_lt (narrow ext (sqrtSumOfSquares ext (comp0 (vnarrow ext (getPCACandidate r)))
           (comp1 (vnarrow ext (getPCACandidate r))))) (v0radius c)"
  by (auto simp: cutsPassed_def)

lemma passedCuts_fit_row:
  "passedCuts c ext collision (fit_row ext v r) \<longleftrightarrow>
     cutsPassed c ext collision r = 3 \<and> passesDCAxy c (posTrack v) (negTrack v)"
  by (simp add: passedCuts_def row_cosPA_def row_V0radius_def fit_row_def cutsPassed_3
      passesDCAxy_def within_iff)

lemma accepted_passedCuts:
  assumes "accepted c ext collision v = Some r"
  shows "passedCuts c ext collision (fit_row ext v r)"
  using assms by (auto elim!: accepted_SomeD simp: passedCuts_fit_row reachesFit_def)

lemma expected_v0data_passedCuts:
  assumes "row \<in> set (expected_v0data c ext collision V0s)"
  shows "passedCuts c ext collision row"
  using assms by (auto simp: expected_v0data_def accepted_passedCuts split: option.splits)

lemma failing_not_accepted:
  assumes "process ext (parCov (posTrack v)) (parCov (negTrack v)) = Returns nCand r"
    and "\<not> passedCuts c ext collision (fit_row ext v r)"
  shows "accepted c ext collision v = None"
  using assms by (auto simp: accepted_def passedCuts_fit_row reachesFit_def)

lemma fold_v0loop_body_stats_exact:
  assumes "length (v0stats (statisticsRegistry b)) = kNV0Steps"
  shows "v0stats (statisticsRegistry (fold (v0loop_body ext collision) V0s b)) =
           fold (\<lambda>v. bump_prefix (stagesReached (conf b) ext collision (posTrack v) (negTrack v)))
             V0s (v0stats (statisticsRegistry b))"
  using assms
proof (induction V0s arbitrary: b)
  case Nil
  then show ?case by simp
next
  case (Cons v vs)
  have "length (v0stats (statisticsRegistry (v0loop_body ext collision v b))) = kNV0Steps"
    using Cons.prems by (simp add: v0loop_body_stats buildV0Candidate_stats_exact)
  from Cons.IH [OF this] Cons.prems show ?case
    by (simp add: v0loop_body_stats buildV0Candidate_stats_exact)
qed

subsection \<open>The worked scenario, evaluated\<close>

lemma example_conf: "conf initialBuilder = defaultConfigurables" "conf usedBuilder = defaultConfigurables"
  by (simp_all add: initialBuilder_def usedBuilder_def)

lemma example_reachesFit:
  "reachesFit defaultConfigurables exampleExternals (posTrack goodV0) (negTrack goodV0)"
  "reachesFit defaultConfigurables exampleExternals (posTrack throwingV0) (negTrack throwingV0)"
  "reachesFit defaultConfigurables exampleExternals (posTrack emptyV0) (negTrack emptyV0)"
  "\<not> passesDCAxy defaultConfigurables (posTrack primaryV0) (negTrack primaryV0)"
  "passesTPCrefit defaultConfigurables exampleExternals (posTrack primaryV0) (negTrack primaryV0)"
  "passesCrossedRows defaultConfigurables (posTrack primaryV0) (negTrack primaryV0)"
  "reachesFit defaultConfigurables exampleExternals (posTrack nanV0) (negTrack nanV0)"
  by (simp_all add: reachesFit_def passesTPCrefit_def passesCrossedRows_def passesDCAxy_def
      defaultConfigurables_def goodV0_def throwingV0_def emptyV0_def primaryV0_def nanV0_def
      goodTrack_def)

lemma example_process:
  "process exampleExternals (parCov (posTrack goodV0)) (parCov (negTrack goodV0)) = Returns 1 goodFit"
  "process exampleExternals (parCov (posTrack throwingV0)) (parCov (negTrack throwingV0)) = Throws"
  "process exampleExternals (parCov (posTrack emptyV0)) (parCov (negTrack emptyV0)) =
     Returns 0 (exampleFit (parCov (posTrack emptyV0)) (parCov (negTrack emptyV0)))"
  "process exampleExternals (parCov (posTrack primaryV0)) (parCov (negTrack primaryV0)) =
     Returns 1 goodFit"
  "process exampleExternals (parCov (posTrack nanV0)) (parCov (negTrack nanV0)) = Returns 1 goodFit"
  by (simp_all add: exampleExternals_def exampleProcess_def goodFit_def goodV0_def throwingV0_def
      emptyV0_def primaryV0_def nanV0_def goodTrack_def)

lemma example_cutsPassed: "cutsPassed defaultConfigurables exampleExternals origin goodFit = 3"
  by (simp add: cutsPassed_def defaultConfigurables_def exampleExternals_def goodFit_def
      exampleFit_def exampleCpa_def exampleSqrtSumOfSquares_def exact_sqrt_def vdot_def vsum_def
      vnarrow_def isFin3_def isFin_def val_def origin_def comp0_def comp1_def comp2_def goodV0_def
      goodTrack_def Let_def)

lemma example_stagesReached:
  "stagesReached defaultConfigurables exampleExternals origin (posTrack goodV0) (negTrack goodV0) = 7"
  "stagesReached defaultConfigurables exampleExternals origin (posTrack throwingV0) (negTrack throwingV0) = 4"
  "stagesReached defaultConfigurables exampleExternals origin (posTrack emptyV0) (negTrack emptyV0) = 4"
  "stagesReached defaultConfigurables exampleExternals origin (posTrack primaryV0) (negTrack primaryV0) = 3"
  using example_reachesFit
  by (simp_all add: stagesReached_def reachesFit_def example_process example_cutsPassed)

lemma example_accepted:
  "accepted defaultConfigurables exampleExternals origin goodV0 = Some goodFit"
  "accepted defaultConfigurables exampleExternals origin throwingV0 = None"
  "accepted defaultConfigurables exampleExternals origin emptyV0 = None"
  "accepted defaultConfigurables exampleExternals origin primaryV0 = None"
  "accepted defaultConfigurables exampleExternals origin nanV0 = Some goodFit"
  using example_reachesFit
  by (simp_all add: accepted_def reachesFit_def example_process example_cutsPassed)

lemma example_flushed:
  "flushed_v0stats exampleExternals origin exampleBatch (resetHistos initialBuilder) = [4, 4, 4, 3, 1, 1, 1]"
proof -
  have "length (v0stats (statisticsRegistry (count_event (resetHistos initialBuilder)))) = kNV0Steps"
    by (simp add: count_event_def resetHistos_def)
  from fold_v0loop_body_stats_exact [OF this, of exampleExternals origin exampleBatch]
  show ?thesis
    by (simp add: flushed_v0stats_def exampleBatch_def example_stagesReached bump_prefix_def
        count_event_def resetHistos_def kNV0Steps_def example_conf eval_nat_numeral)
qed

lemma example_length: "length (v0stats (statisticsRegistry initialBuilder)) = kNV0Steps"
  by (simp add: initialBuilder_def)

subsection \<open>Claim C3: the stage counters\<close>

text \<open>
  C3: for every batch processed after a counter reset, the counter vector that
  \<open>buildStrangenessTables\<close> hands to \<open>fillHistos\<close> does not increase along the pipeline:
  \<open>v0stats[kV0All] \<ge> v0stats[kV0TPCrefit] \<ge> v0stats[kV0CrossedRows] \<ge> v0stats[kV0DCAxy]
  \<ge> v0stats[kV0DCADau] \<ge> v0stats[kV0CosPA] \<ge> v0stats[kV0Radius]\<close>. And one evaluation of
  a candidate increments exactly the counters of the stages it reached, which are the
  first \<open>stagesReached\<close> ones (between one and all seven), and leaves the others as they
  were.
\<close>

theorem stage_counters_nonincreasing:
  "nonincreasing (flushed_v0stats ext collision V0s (resetHistos b)) \<and>
   (length (v0stats (statisticsRegistry b)) = kNV0Steps \<longrightarrow>
      1 \<le> stagesReached (conf b) ext collision p n \<and>
      stagesReached (conf b) ext collision p n \<le> kNV0Steps \<and>
      v0stats (statisticsRegistry (snd (buildV0Candidate ext collision p n b))) =
        bump_prefix (stagesReached (conf b) ext collision p n) (v0stats (statisticsRegistry b)))"
  using fold_v0loop_body_counters_ok [OF counters_ok_reset, of ext collision V0s b]
    stagesReached_bounds [of "conf b" ext collision p n]
  by (simp add: flushed_v0stats_def counters_ok_def buildV0Candidate_stats_exact)

text \<open>The batch of the scenario: one accepted V0, one whose fit throws, one without
  vertex, one cut by the DCA prefilter.\<close>

theorem stage_counters_nonincreasing_witness:
  "flushed_v0stats exampleExternals origin exampleBatch (resetHistos initialBuilder) =
     [4, 4, 4, 3, 1, 1, 1] \<and>
   nonincreasing (flushed_v0stats exampleExternals origin exampleBatch (resetHistos initialBuilder)) \<and>
   length (v0stats (statisticsRegistry initialBuilder)) = kNV0Steps \<and>
   stagesReached (conf initialBuilder) exampleExternals origin (posTrack goodV0) (negTrack goodV0) = 7 \<and>
   v0stats (statisticsRegistry
     (snd (buildV0Candidate exampleExternals origin (posTrack goodV0) (negTrack goodV0) initialBuilder))) =
     [1, 1, 1, 1, 1, 1, 1]"
  using stage_counters_nonincreasing
      [of exampleExternals origin exampleBatch initialBuilder "posTrack goodV0" "negTrack goodV0"]
    example_flushed example_length
  by (simp add: example_conf example_stagesReached bump_prefix_def initialBuilder_def kNV0Steps_def
      eval_nat_numeral)

subsection \<open>Claim C4: an exception of the fitter\<close>

text \<open>
  C4: when a candidate passes the tests before the fit and \<open>fitter.process\<close> throws for
  its two tracks, \<open>buildV0Candidate\<close> catches the exception and returns false, the
  counter \<open>statisticsRegistry.exceptions\<close> is one higher than before, the loop body
  writes no row to either table, and the batch goes on: the rows that
  \<open>buildStrangenessTables\<close> appends for the whole batch are those it appends for the
  batch without this candidate.
\<close>

theorem fitter_exception_contained:
  assumes "reachesFit (conf b) ext (posTrack v) (negTrack v)"
    and "process ext (parCov (posTrack v)) (parCov (negTrack v)) = Throws"
  shows "\<not> fst (buildV0Candidate ext collision (posTrack v) (negTrack v) b) \<and>
         exceptions (statisticsRegistry (snd (buildV0Candidate ext collision (posTrack v) (negTrack v) b))) =
           exceptions (statisticsRegistry b) + 1 \<and>
         v0data (v0loop_body ext collision v b) = v0data b \<and>
         v0covs (v0loop_body ext collision v b) = v0covs b \<and>
         new_v0data ext collision (before @ v # after) b = new_v0data ext collision (before @ after) b"
proof -
  have "accepted (conf b) ext collision v = None"
    using assms by (simp add: accepted_def)
  then have "expected_v0data (conf b) ext collision [v] = []"
    and "expected_v0covs (conf b) ext collision [v] = []"
    by (simp_all add: expected_v0data_def expected_v0covs_def)
  then show ?thesis
    using assms expected_v0data_Cons [of "conf b" ext collision v after]
    by (simp add: buildV0Candidate_Throws buildV0Candidate_exceptions v0loop_body_tables new_tables
        expected_v0data_append)
qed

theorem fitter_exception_contained_witness:
  "reachesFit (conf initialBuilder) exampleExternals (posTrack throwingV0) (negTrack throwingV0) \<and>
   process exampleExternals (parCov (posTrack throwingV0)) (parCov (negTrack throwingV0)) = Throws \<and>
   \<not> fst (buildV0Candidate exampleExternals origin (posTrack throwingV0) (negTrack throwingV0)
            initialBuilder) \<and>
   exceptions (statisticsRegistry
     (snd (buildV0Candidate exampleExternals origin (posTrack throwingV0) (negTrack throwingV0)
            initialBuilder))) = 1 \<and>
   v0data (v0loop_body exampleExternals origin throwingV0 initialBuilder) = [] \<and>
   v0covs (v0loop_body exampleExternals origin throwingV0 initialBuilder) = [] \<and>
   new_v0data exampleExternals origin ([goodV0] @ throwingV0 # [goodV0]) initialBuilder =
     [fit_row exampleExternals goodV0 goodFit, fit_row exampleExternals goodV0 goodFit]"
proof -
  have h1: "reachesFit (conf initialBuilder) exampleExternals (posTrack throwingV0) (negTrack throwingV0)"
    by (simp add: example_conf example_reachesFit)
  have h2: "process exampleExternals (parCov (posTrack throwingV0)) (parCov (negTrack throwingV0)) = Throws"
    by (rule example_process)
  have rows: "new_v0data exampleExternals origin ([goodV0] @ [goodV0]) initialBuilder =
      [fit_row exampleExternals goodV0 goodFit, fit_row exampleExternals goodV0 goodFit]"
    by (simp add: new_tables expected_v0data_def example_conf example_accepted)
  have init: "exceptions (statisticsRegistry initialBuilder) = 0" "v0data initialBuilder = []"
    "v0covs initialBuilder = []"
    by (simp_all add: initialBuilder_def)
  from fitter_exception_contained [OF h1 h2, of origin "[goodV0]" "[goodV0]"] h1 h2 rows init
  show ?thesis by simp
qed

subsection \<open>Claim C5: no vertex found\<close>

text \<open>
  C5: when \<open>fitter.process\<close> returns zero candidates for the two tracks (without
  throwing), \<open>buildV0Candidate\<close> returns false and leaves
  \<open>statisticsRegistry.exceptions\<close> as it was; by C4 a thrown failure raises that counter,
  so the two outcomes are told apart.
\<close>

theorem zero_candidates_not_an_exception:
  assumes "process ext (parCov p) (parCov n) = Returns 0 r"
  shows "\<not> fst (buildV0Candidate ext collision p n b) \<and>
         exceptions (statisticsRegistry (snd (buildV0Candidate ext collision p n b))) =
           exceptions (statisticsRegistry b)"
proof (cases "reachesFit (conf b) ext p n")
  case True
  with assms show ?thesis
    by (simp add: buildV0Candidate_Returns_zero buildV0Candidate_exceptions)
next
  case False
  then show ?thesis
    by (simp add: buildV0Candidate_rejects buildV0Candidate_exceptions)
qed

theorem zero_candidates_not_an_exception_witness:
  "process exampleExternals (parCov (posTrack emptyV0)) (parCov (negTrack emptyV0)) =
     Returns 0 (exampleFit (parCov (posTrack emptyV0)) (parCov (negTrack emptyV0))) \<and>
   \<not> fst (buildV0Candidate exampleExternals origin (posTrack emptyV0) (negTrack emptyV0) initialBuilder) \<and>
   exceptions (statisticsRegistry
     (snd (buildV0Candidate exampleExternals origin (posTrack emptyV0) (negTrack emptyV0)
            initialBuilder))) = 0"
proof -
  have init: "exceptions (statisticsRegistry initialBuilder) = 0"
    by (simp add: initialBuilder_def)
  from zero_candidates_not_an_exception [OF example_process(3), of origin initialBuilder]
    example_process(3) init
  show ?thesis by simp
qed

subsection \<open>Claim C6: the rows of the output table and the cuts\<close>

text \<open>
  C6 as stated says that every emitted row satisfies the five cuts. The comparisons of
  the builder are on floats and have no guard against NaN: a V0 whose positive daughter
  has a NaN \<open>dcaXY\<close> is not below the minimum, goes through the fit and is written to
  the table, with a \<open>|DCAxy|\<close> that is not at least \<open>dcapostopv\<close>.
\<close>

theorem emitted_rows_satisfy_cuts_counterexample:
  "new_v0data exampleExternals origin [nanV0] initialBuilder =
     [fit_row exampleExternals nanV0 goodFit] \<and>
   row_dcapostopv (fit_row exampleExternals nanV0 goodFit) = NaN \<and>
   \<not> satisfiesCuts (conf initialBuilder) exampleExternals origin
       (fit_row exampleExternals nanV0 goodFit)"
proof -
  have rows: "new_v0data exampleExternals origin [nanV0] initialBuilder =
      [fit_row exampleExternals nanV0 goodFit]"
    by (simp add: new_tables expected_v0data_def example_conf example_accepted)
  have nan: "row_dcapostopv (fit_row exampleExternals nanV0 goodFit) = NaN"
    by (simp add: fit_row_def nanV0_def)
  then have "\<not> satisfiesCuts (conf initialBuilder) exampleExternals origin
      (fit_row exampleExternals nanV0 goodFit)"
    by (simp add: satisfiesCuts_def atLeast_fl_def fl_le_def)
  with rows nan show ?thesis by simp
qed

text \<open>
  C6, amended: every row that \<open>buildStrangenessTables\<close> appends to the V0 table has
  passed the five comparisons of the builder, which are comparisons of floats: each
  of the following holds, or the quantity and its threshold are unordered (one of
  the two is NaN). Its stored DCA between the daughters is at most \<open>dcav0dau\<close>; the
  cosine of pointing angle with respect to the primary vertex of the collision and the
  transverse radius, computed from its stored vertex and momenta and rounded to
  \<open>float\<close>, are at least \<open>v0cospa\<close> and \<open>v0radius\<close>; and \<open>|DCAxy|\<close> of the positive and
  of the negative daughter are at least \<open>dcapostopv\<close> and \<open>dcanegtopv\<close>. And a
  candidate whose fit returns and whose record does not pass these comparisons
  produces no row.
\<close>

theorem emitted_rows_passed_cuts:
  "(\<forall>row \<in> set (new_v0data ext collision V0s b). passedCuts (conf b) ext collision row) \<and>
   (process ext (parCov (posTrack v)) (parCov (negTrack v)) = Returns nCand r \<and>
    \<not> passedCuts (conf b) ext collision (fit_row ext v r) \<longrightarrow>
      v0data (v0loop_body ext collision v b) = v0data b)"
  using failing_not_accepted [of ext v nCand r "conf b" collision]
  by (auto simp: new_tables expected_v0data_passedCuts v0loop_body_tables expected_v0data_def)

text \<open>In the scenario the one accepted V0 is within all five cuts, and the V0 with a
  daughter from the primary vertex produces no row.\<close>

theorem emitted_rows_passed_cuts_witness:
  "new_v0data exampleExternals origin exampleBatch initialBuilder =
     [fit_row exampleExternals goodV0 goodFit] \<and>
   passedCuts (conf initialBuilder) exampleExternals origin (fit_row exampleExternals goodV0 goodFit) \<and>
   satisfiesCuts (conf initialBuilder) exampleExternals origin (fit_row exampleExternals goodV0 goodFit) \<and>
   process exampleExternals (parCov (posTrack primaryV0)) (parCov (negTrack primaryV0)) =
     Returns 1 goodFit \<and>
   \<not> passedCuts (conf initialBuilder) exampleExternals origin
       (fit_row exampleExternals primaryV0 goodFit) \<and>
   v0data (v0loop_body exampleExternals origin primaryV0 initialBuilder) = []"
proof -
  have rows: "new_v0data exampleExternals origin exampleBatch initialBuilder =
      [fit_row exampleExternals goodV0 goodFit]"
    by (simp add: new_tables expected_v0data_def example_conf example_accepted exampleBatch_def)
  have within: "satisfiesCuts (conf initialBuilder) exampleExternals origin
      (fit_row exampleExternals goodV0 goodFit)"
    by (simp add: satisfiesCuts_def fit_row_def atLeast_fl_def atMost_fl_def fl_le_def
        example_conf defaultConfigurables_def exampleExternals_def goodFit_def
        exampleFit_def exampleCpa_def exampleSqrtSumOfSquares_def exact_sqrt_def vdot_def vsum_def
        vnarrow_def isFin3_def isFin_def val_def origin_def comp0_def comp1_def comp2_def goodV0_def
        goodTrack_def Let_def)
  have fails: "\<not> passedCuts (conf initialBuilder) exampleExternals origin
      (fit_row exampleExternals primaryV0 goodFit)"
    by (simp add: passedCuts_fit_row example_conf example_reachesFit)
  have init: "v0data initialBuilder = []"
    by (simp add: initialBuilder_def)
  from emitted_rows_passed_cuts
      [of exampleExternals origin exampleBatch initialBuilder primaryV0 1 goodFit]
    rows within fails example_process(4) init
  show ?thesis by simp
qed

subsection \<open>Claim C7: the DCA prefilter comes before the fit\<close>

text \<open>
  C7 as stated says that only candidates whose daughters both have \<open>|DCAxy|\<close> at or
  above the minimum go on to the fit. The test rejects a value that compares below the
  minimum, and NaN does not: for a V0 whose positive daughter has a NaN \<open>dcaXY\<close> the
  fitter is invoked, although that \<open>|DCAxy|\<close> is not at least \<open>dcapostopv\<close>.
\<close>

theorem dca_prefilter_counterexample:
  "processCalls (fitter initialBuilder) = 0 \<and>
   processCalls (fitter (snd (buildV0Candidate exampleExternals origin (posTrack nanV0)
      (negTrack nanV0) initialBuilder))) = 1 \<and>
   \<not> atLeast_fl (fabs (dcaXY (posTrack nanV0))) (dcapostopv (conf initialBuilder))"
proof -
  have init: "processCalls (fitter initialBuilder) = 0"
    by (simp add: initialBuilder_def)
  have calls: "processCalls (fitter (snd (buildV0Candidate exampleExternals origin (posTrack nanV0)
      (negTrack nanV0) initialBuilder))) = 1"
    by (simp add: buildV0Candidate_processCalls example_conf example_reachesFit init)
  have "dcaXY (posTrack nanV0) = NaN"
    by (simp add: nanV0_def)
  then have "\<not> atLeast_fl (fabs (dcaXY (posTrack nanV0))) (dcapostopv (conf initialBuilder))"
    by (simp add: atLeast_fl_def fl_le_def)
  with init calls show ?thesis by simp
qed

text \<open>
  C7, amended: the test on the DCA to the primary vertex is evaluated before the fit.
  If \<open>|DCAxy|\<close> of either daughter compares strictly below its configured minimum, the
  candidate is rejected and \<open>fitter.process\<close> is not invoked for it; and whenever the
  fitter is invoked for a candidate, \<open>|DCAxy|\<close> of each daughter is at least its minimum
  or unordered with it (one of the two is NaN).
\<close>

theorem dca_prefilter_before_fit:
  "(fl_lt (fabs (dcaXY p)) (dcapostopv (conf b)) \<or>
    fl_lt (fabs (dcaXY n)) (dcanegtopv (conf b)) \<longrightarrow>
      \<not> fst (buildV0Candidate ext collision p n b) \<and>
      processCalls (fitter (snd (buildV0Candidate ext collision p n b))) = processCalls (fitter b)) \<and>
   (processCalls (fitter (snd (buildV0Candidate ext collision p n b))) \<noteq> processCalls (fitter b) \<longrightarrow>
      (unordered (fabs (dcaXY p)) (dcapostopv (conf b)) \<or>
         atLeast_fl (fabs (dcaXY p)) (dcapostopv (conf b))) \<and>
      (unordered (fabs (dcaXY n)) (dcanegtopv (conf b)) \<or>
         atLeast_fl (fabs (dcaXY n)) (dcanegtopv (conf b))))"
  using buildV0Candidate_rejects [of b ext p n collision]
  by (auto simp: buildV0Candidate_processCalls reachesFit_def passesDCAxy_def within_iff)

theorem dca_prefilter_before_fit_witness:
  "fl_lt (fabs (dcaXY (posTrack primaryV0))) (dcapostopv (conf initialBuilder)) \<and>
   \<not> fst (buildV0Candidate exampleExternals origin (posTrack primaryV0) (negTrack primaryV0)
            initialBuilder) \<and>
   processCalls (fitter (snd (buildV0Candidate exampleExternals origin (posTrack primaryV0)
      (negTrack primaryV0) initialBuilder))) = 0 \<and>
   processCalls (fitter (snd (buildV0Candidate exampleExternals origin (posTrack goodV0)
      (negTrack goodV0) initialBuilder))) = 1 \<and>
   atLeast_fl (fabs (dcaXY (posTrack goodV0))) (dcapostopv (conf initialBuilder)) \<and>
   atLeast_fl (fabs (dcaXY (negTrack goodV0))) (dcanegtopv (conf initialBuilder))"
proof -
  have low: "fl_lt (fabs (dcaXY (posTrack primaryV0))) (dcapostopv (conf initialBuilder))"
    by (simp add: example_conf defaultConfigurables_def primaryV0_def goodV0_def goodTrack_def)
  have calls: "processCalls (fitter (snd (buildV0Candidate exampleExternals origin (posTrack goodV0)
      (negTrack goodV0) initialBuilder))) = 1"
    by (simp add: buildV0Candidate_processCalls example_conf example_reachesFit initialBuilder_def)
  have init: "processCalls (fitter initialBuilder) = 0"
    by (simp add: initialBuilder_def)
  have notnan:
    "\<not> unordered (fabs (dcaXY (posTrack goodV0))) (dcapostopv (conf initialBuilder))"
    "\<not> unordered (fabs (dcaXY (negTrack goodV0))) (dcanegtopv (conf initialBuilder))"
    by (simp_all add: unordered_def goodV0_def goodTrack_def example_conf defaultConfigurables_def)
  from dca_prefilter_before_fit
      [of "posTrack primaryV0" initialBuilder "negTrack primaryV0" exampleExternals origin]
    dca_prefilter_before_fit
      [of "posTrack goodV0" initialBuilder "negTrack goodV0" exampleExternals origin]
    low calls init notnan
  show ?thesis by simp
qed

subsection \<open>Claim C9: a second run over the same batch\<close>

text \<open>
  C9: running \<open>buildStrangenessTables\<close> a second time on the same collision and V0s, in
  the state the first run left, appends the same rows in the same order to the V0 table
  and to the covariance table as the first run did. More generally the appended rows
  are the same from any two states of the builder with the same configurables,
  whatever the counters, the candidate struct, the member tracks and the fitter hold
  from earlier candidates. (The fit itself is a function of the two tracks: its
  settings and the field are fixed.)
\<close>

theorem second_run_same_rows:
  "new_v0data ext collision V0s (buildStrangenessTables ext collision V0s b) =
     new_v0data ext collision V0s b \<and>
   new_v0covs ext collision V0s (buildStrangenessTables ext collision V0s b) =
     new_v0covs ext collision V0s b \<and>
   (conf b' = conf b \<longrightarrow>
      new_v0data ext collision V0s b' = new_v0data ext collision V0s b \<and>
      new_v0covs ext collision V0s b' = new_v0covs ext collision V0s b)"
  by (simp add: new_tables)

theorem second_run_same_rows_witness:
  "new_v0data exampleExternals origin exampleBatch
     (buildStrangenessTables exampleExternals origin exampleBatch initialBuilder) =
     [fit_row exampleExternals goodV0 goodFit] \<and>
   new_v0data exampleExternals origin exampleBatch initialBuilder = [fit_row exampleExternals goodV0 goodFit] \<and>
   new_v0covs exampleExternals origin exampleBatch
     (buildStrangenessTables exampleExternals origin exampleBatch initialBuilder) =
     [fit_cov exampleExternals goodFit] \<and>
   conf usedBuilder = conf initialBuilder \<and>
   new_v0data exampleExternals origin exampleBatch usedBuilder = [fit_row exampleExternals goodV0 goodFit] \<and>
   new_v0covs exampleExternals origin exampleBatch usedBuilder = [fit_cov exampleExternals goodFit]"
proof -
  have rows: "new_v0data exampleExternals origin exampleBatch initialBuilder = [fit_row exampleExternals goodV0 goodFit]"
    by (simp add: new_tables expected_v0data_def example_conf example_accepted exampleBatch_def)
  have cm: "createV0CovMats defaultConfigurables \<noteq> 0"
    by (simp add: defaultConfigurables_def)
  have covs: "new_v0covs exampleExternals origin exampleBatch initialBuilder = [fit_cov exampleExternals goodFit]"
    by (simp add: new_tables expected_v0covs_def example_conf example_accepted exampleBatch_def cm)
  have same: "conf usedBuilder = conf initialBuilder"
    by (simp add: example_conf)
  from second_run_same_rows
      [of exampleExternals origin exampleBatch initialBuilder usedBuilder] rows covs same
  show ?thesis by simp
qed

section \<open>The link builder\<close>

text \<open>Only an empty V0 table is processed without touching an element beyond the size
  of \<open>lIndices\<close>: after \<open>reserve\<close> the vector still has size zero, so the first write of
  the initialisation loop is already out of range.\<close>

lemma linkBuilder_process_empty: "linkBuilder_process 0 [] = Inr []"
  by (simp add: linkBuilder_process_def reserve_def vector_new_def)

lemma linkBuilder_process_nonempty:
  assumes "0 < n"
  shows "linkBuilder_process n ds = Inl (IndexBeyondSize 0 0)"
proof -
  from assms have "[0..<n] = 0 # [1..<n]" by (simp add: upt_conv_Cons)
  then show ?thesis
    by (simp add: linkBuilder_process_def reserve_def vector_new_def vector_set_def)
qed

text \<open>
  C10 asks that every access to \<open>lIndices\<close> is within its size. For a V0 table with one
  V0 and a V0Data table with the one row built from it, the first statement of the
  first loop, \<open>lIndices[0] = -1\<close>, addresses element 0 of a vector of size 0.
\<close>

theorem linkBuilder_process_one_V0:
  "linkBuilder_process 1 [\<lparr>v0Id = 0, dataGlobalIndex = 0\<rparr>] = Inl (IndexBeyondSize 0 0)"
  by (simp add: linkBuilder_process_def reserve_def vector_new_def vector_set_def)

end
